theory Spec2Isabelle
  imports Complex_Main "HOL-Library.AList" "HOL-Library.Product_Lexorder" "HOL-Library.Sublist"
    "HOL-Library.Log_Nat"
begin

section \<open>Python values and exceptions\<close>

text \<open>
  The orchestrator is written in Python. Values whose Python type is not fixed by the
  code (a job's \<^verbatim>\<open>normalized_error\<close> can hold whatever an exception carries
  in \<^verbatim>\<open>normalized_code\<close>; instance attributes hold anything) are values of
  \<open>pyval\<close>. An exception is either a \<^verbatim>\<open>GatewayError\<close> (or a subclass of it,
  all of which only differ in the message and the code handed to the base constructor) or
  any other exception, which has a class name and a message but no
  \<^verbatim>\<open>normalized_code\<close> attribute.
\<close>

datatype pyval =
    PNone
  | PBool bool
  | PInt int
  | PStr string
  | PList "pyval list"
  | PDict "(string \<times> pyval) list"
  | PObject string

datatype exn =
    GatewayError string pyval
  | PyError string string

text \<open>\<^verbatim>\<open>errors.py\<close>: the base constructor
  \<^verbatim>\<open>__init__(self, message, normalized_code="other")\<close> and its subclasses.\<close>

definition GatewayError_init :: "string \<Rightarrow> pyval option \<Rightarrow> exn" where
  "GatewayError_init message normalized_code =
     GatewayError message (case normalized_code of None \<Rightarrow> PStr ''other'' | Some c \<Rightarrow> c)"

definition ProviderUnreachableError :: "string \<Rightarrow> string \<Rightarrow> exn" where
  "ProviderUnreachableError provider_id detail =
     GatewayError_init (''Provider '' @ provider_id @ '' unreachable. '' @ detail)
       (Some (PStr ''unreachable''))"

definition ProviderTimeoutError :: "string \<Rightarrow> exn" where
  "ProviderTimeoutError provider_id =
     GatewayError_init (''Provider '' @ provider_id @ '' timed out.'') (Some (PStr ''timeout''))"

definition ModelNotFoundError :: "string \<Rightarrow> exn" where
  "ModelNotFoundError model_id =
     GatewayError_init (''Model '' @ model_id @ '' not found.'') (Some (PStr ''other''))"

definition ConfigError :: "string \<Rightarrow> exn" where
  "ConfigError message = GatewayError_init message (Some (PStr ''other''))"

definition OOMError :: "string \<Rightarrow> exn" where
  "OOMError provider_id =
     GatewayError_init (''Provider '' @ provider_id @ '' OOM.'') (Some (PStr ''oom''))"

definition ContextLengthError :: "string \<Rightarrow> exn" where
  "ContextLengthError provider_id =
     GatewayError_init (''Provider '' @ provider_id @ '' exceeded context length.'')
       (Some (PStr ''context_length''))"

text \<open>\<^verbatim>\<open>str(e)\<close> and \<^verbatim>\<open>hasattr(e, "normalized_code")\<close> with
  \<^verbatim>\<open>e.normalized_code\<close>.\<close>

fun exn_str :: "exn \<Rightarrow> string" where
  "exn_str (GatewayError message c) = message"
| "exn_str (PyError cls message) = message"

fun exn_normalized_code :: "exn \<Rightarrow> pyval option" where
  "exn_normalized_code (GatewayError message c) = Some c"
| "exn_normalized_code (PyError cls message) = None"

text \<open>Python truthiness of the values that the code tests with \<^verbatim>\<open>if x\<close> or
  \<^verbatim>\<open>x or y\<close>.\<close>

fun truthy :: "pyval \<Rightarrow> bool" where
  "truthy PNone = False"
| "truthy (PBool b) = b"
| "truthy (PInt i) = (i \<noteq> 0)"
| "truthy (PStr s) = (s \<noteq> [])"
| "truthy (PList xs) = (xs \<noteq> [])"
| "truthy (PDict kvs) = (kvs \<noteq> [])"
| "truthy (PObject cls) = True"

text \<open>The closed set of normalized error codes.\<close>

definition normalized_codes :: "pyval list" where
  "normalized_codes =
     [PStr ''unreachable'', PStr ''timeout'', PStr ''oom'', PStr ''context_length'', PStr ''other'']"

section \<open>Configuration records (\<^verbatim>\<open>config.py\<close>)\<close>

text \<open>
  Usage percentages are Python floats (IEEE binary64). A finite float is a rational
  number, so the fields are rationals; what the code computes with them is
  \<open>float_add\<close> below. Infinities and NaN are not values of the model.
\<close>

record ModelResourceConfig =
  cpu_usage :: rat
  gpu_usage :: rat
  vram_usage :: rat
  exclusive :: bool

record ModelScoreConfig =
  base_priority :: int
  load_penalty :: int
  runtime_penalty :: int
  always_run_last :: bool
  resources :: ModelResourceConfig

definition ModelResourceConfig_default :: ModelResourceConfig where
  "ModelResourceConfig_default =
     \<lparr>cpu_usage = 0, gpu_usage = 0, vram_usage = 0, exclusive = False\<rparr>"

definition ModelScoreConfig_default :: ModelScoreConfig where
  "ModelScoreConfig_default =
     \<lparr>base_priority = 0, load_penalty = 0, runtime_penalty = 0, always_run_last = False,
      resources = ModelResourceConfig_default\<rparr>"

text \<open>What \<^verbatim>\<open>global_config.load_models()\<close> returns: the dict of the per-model
  records of \<^verbatim>\<open>models.yaml\<close>, as an association list;
  \<^verbatim>\<open>.get(model_id)\<close> is \<open>map_of\<close>.\<close>

type_synonym models_cfg = "(string \<times> ModelScoreConfig) list"

record RouteConfig =
  primary_model :: string
  fallback_models :: "string list"
  fallback_on :: "string list"

record RuntimeConfig =
  auto_refresh_on_miss :: bool
  refresh_cooldown_seconds :: int
  request_timeout_seconds :: int

record RoutingConfig =
  enable_fallback :: bool
  default_route_if_model_missing :: "string option"
  max_fallback_attempts :: int

record AppConfig =
  runtime :: RuntimeConfig
  routing :: RoutingConfig
  default_model_score :: ModelScoreConfig

definition AppConfig_default :: AppConfig where
  "AppConfig_default =
     \<lparr>runtime = \<lparr>auto_refresh_on_miss = True, refresh_cooldown_seconds = 30,
                  request_timeout_seconds = 600\<rparr>,
      routing = \<lparr>enable_fallback = True, default_route_if_model_missing = None,
                  max_fallback_attempts = 2\<rparr>,
      default_model_score = ModelScoreConfig_default\<rparr>"

section \<open>Jobs (\<^verbatim>\<open>types.py\<close>)\<close>

record ChatMessage =
  role :: string
  content :: string

record ChatCompletionRequest =
  model :: string
  messages :: "ChatMessage list"

record ChatCompletionResponse =
  response_id :: string
  response_model :: string
  choices :: "ChatMessage list"

text \<open>
  A job. \<^verbatim>\<open>status\<close> is a Python string (\<^verbatim>\<open>"pending"\<close>,
  \<^verbatim>\<open>"running"\<close>, \<^verbatim>\<open>"completed"\<close>, \<^verbatim>\<open>"error"\<close>);
  \<^verbatim>\<open>normalized_error\<close> is declared \<^verbatim>\<open>Optional[str]\<close> but assigned
  without validation, so it is an optional \<open>pyval\<close>.
\<close>

record Job =
  job_id :: string
  original_model_id :: string
  resolved_model_id :: string
  provider_id :: "string option"
  route_name :: "string option"
  request :: ChatCompletionRequest
  status :: string
  error :: "string option"
  normalized_error :: "pyval option"
  response :: "ChatCompletionResponse option"

section \<open>Floating-point addition\<close>

text \<open>
  Python's \<^verbatim>\<open>+\<close> on two floats is the exact sum rounded to the nearest binary64
  number, ties to the even significand. \<open>ilog2 x\<close> is the binary exponent \<open>e\<close> of a
  positive \<open>x\<close> (\<open>2^e \<le> x < 2^(e+1)\<close>); a float of that exponent is a multiple of
  \<open>2^(e-52)\<close> by an integer significand of 53 bits. The exponent is not bounded in the
  model: sums neither overflow to infinity nor fall into the subnormal range.
\<close>

definition ilog2 :: "rat \<Rightarrow> int" where
  "ilog2 x = (if 1 \<le> x then int (floorlog 2 (nat \<lfloor>x\<rfloor>)) - 1
              else - int (ceillog2 (nat \<lceil>1 / x\<rceil>)))"

definition round_half_even :: "rat \<Rightarrow> int" where
  "round_half_even x =
     (let f = \<lfloor>x\<rfloor>; d = x - of_int f
      in if d < 1 / 2 then f else if 1 / 2 < d then f + 1 else if even f then f else f + 1)"

definition float_round :: "rat \<Rightarrow> rat" where
  "float_round x =
     (if x = 0 then 0
      else let u = 2 powi (ilog2 \<bar>x\<bar> - 52)
           in of_int (round_half_even (x / u)) * u)"

definition float_add :: "rat \<Rightarrow> rat \<Rightarrow> rat" where
  "float_add x y = float_round (x + y)"

section \<open>Concurrency rules (\<^verbatim>\<open>concurrency/builtins.py\<close>, \<^verbatim>\<open>concurrency/manager.py\<close>)\<close>

text \<open>\<^verbatim>\<open>ExclusiveModelRule._is_exclusive\<close>: a model without a record is not exclusive.\<close>

definition is_exclusive :: "models_cfg \<Rightarrow> string \<Rightarrow> bool" where
  "is_exclusive models model_id =
     (case map_of models model_id of Some model_cfg \<Rightarrow> exclusive (resources model_cfg)
      | None \<Rightarrow> False)"

text \<open>The loop \<^verbatim>\<open>for active_job in active_jobs: if self._is_exclusive(...): return False\<close>.\<close>

fun no_exclusive_running :: "models_cfg \<Rightarrow> Job list \<Rightarrow> bool" where
  "no_exclusive_running models [] = True"
| "no_exclusive_running models (active_job # rest) =
     (if is_exclusive models (resolved_model_id active_job) then False
      else no_exclusive_running models rest)"

definition ExclusiveModelRule_can_run :: "models_cfg \<Rightarrow> Job \<Rightarrow> Job list \<Rightarrow> bool" where
  "ExclusiveModelRule_can_run models job active =
     (if is_exclusive models (resolved_model_id job) \<and> active \<noteq> [] then False
      else no_exclusive_running models active)"

text \<open>\<^verbatim>\<open>ResourceLimitRule._get_resources\<close>: a model without a record has the default
  (all zero) resource descriptor.\<close>

definition get_resources :: "models_cfg \<Rightarrow> string \<Rightarrow> ModelResourceConfig" where
  "get_resources models model_id =
     (case map_of models model_id of Some model_cfg \<Rightarrow> resources model_cfg
      | None \<Rightarrow> ModelResourceConfig_default)"

text \<open>The accumulation loop of \<^verbatim>\<open>ResourceLimitRule.can_run\<close>: the pair
  \<^verbatim>\<open>(total_cpu, total_gpu)\<close>, updated with \<^verbatim>\<open>+=\<close> for each active job
  in list order.\<close>

fun sum_active_costs :: "models_cfg \<Rightarrow> Job list \<Rightarrow> rat \<times> rat \<Rightarrow> rat \<times> rat" where
  "sum_active_costs models [] totals = totals"
| "sum_active_costs models (active_job # rest) (total_cpu, total_gpu) =
     (let res = get_resources models (resolved_model_id active_job)
      in sum_active_costs models rest
           (float_add total_cpu (cpu_usage res), float_add total_gpu (gpu_usage res)))"

definition ResourceLimitRule_can_run :: "models_cfg \<Rightarrow> Job \<Rightarrow> Job list \<Rightarrow> bool" where
  "ResourceLimitRule_can_run models job active =
     (let candidate_res = get_resources models (resolved_model_id job);
          (total_cpu, total_gpu) = sum_active_costs models active (0, 0)
      in if float_add total_cpu (cpu_usage candidate_res) > 100 then False
         else if float_add total_gpu (gpu_usage candidate_res) > 100 then False
         else True)"

definition MaxConcurrencyRule_can_run :: "int \<Rightarrow> Job \<Rightarrow> Job list \<Rightarrow> bool" where
  "MaxConcurrencyRule_can_run max_concurrent job active = (int (length active) < max_concurrent)"

datatype ConcurrencyRule = ExclusiveModelRule | ResourceLimitRule | MaxConcurrencyRule int

fun rule_can_run :: "models_cfg \<Rightarrow> ConcurrencyRule \<Rightarrow> Job \<Rightarrow> Job list \<Rightarrow> bool" where
  "rule_can_run models ExclusiveModelRule job active = ExclusiveModelRule_can_run models job active"
| "rule_can_run models ResourceLimitRule job active = ResourceLimitRule_can_run models job active"
| "rule_can_run models (MaxConcurrencyRule n) job active = MaxConcurrencyRule_can_run n job active"

text \<open>\<^verbatim>\<open>ConcurrencyManager.can_run\<close>: the first rule that says no blocks the job.\<close>

fun ConcurrencyManager_can_run ::
  "models_cfg \<Rightarrow> ConcurrencyRule list \<Rightarrow> Job \<Rightarrow> Job list \<Rightarrow> bool" where
  "ConcurrencyManager_can_run models [] job active = True"
| "ConcurrencyManager_can_run models (rule # rest) job active =
     (if \<not> rule_can_run models rule job active then False
      else ConcurrencyManager_can_run models rest job active)"

section \<open>The scheduler (\<^verbatim>\<open>queuing/scheduler.py\<close>)\<close>

text \<open>
  \<^verbatim>\<open>queues\<close> is a Python dict from model id to deque, kept as an association
  list in insertion order; \<^verbatim>\<open>active_jobs\<close> is a list. \<open>spawned\<close> lists
  the jobs for which \<^verbatim>\<open>asyncio.create_task(self._execute_job(job))\<close> was called,
  in creation order. The three events are their flags. The handle
  \<^verbatim>\<open>processing_task\<close> is not part of the state: the dispatch loop is the
  function \<open>run_process_loop\<close> below.
\<close>

record Scheduler =
  queues :: "(string \<times> Job list) list"
  active_jobs :: "Job list"
  rules :: "ConcurrencyRule list"
  spawned :: "Job list"
  shutdown_event :: bool
  job_complete_event :: bool
  new_job_event :: bool

text \<open>\<^verbatim>\<open>Scheduler.__init__\<close> with \<^verbatim>\<open>_setup_default_rules\<close>.\<close>

definition default_rules :: "ConcurrencyRule list" where
  "default_rules = [ExclusiveModelRule, ResourceLimitRule, MaxConcurrencyRule 10]"

definition Scheduler_init :: Scheduler where
  "Scheduler_init =
     \<lparr>queues = [], active_jobs = [], rules = default_rules, spawned = [],
      shutdown_event = False, job_complete_event = False, new_job_event = False\<rparr>"

text \<open>The deque stored under a model id; a model id that is not a key has no queued job.\<close>

definition queue_of :: "(string \<times> Job list) list \<Rightarrow> string \<Rightarrow> Job list" where
  "queue_of qs model_id = (case map_of qs model_id of Some q \<Rightarrow> q | None \<Rightarrow> [])"

definition enqueue_job :: "Job \<Rightarrow> Scheduler \<Rightarrow> Scheduler" where
  "enqueue_job job s =
     (let m = resolved_model_id job;
          qs = (if map_of (queues s) m = None then AList.update m [] (queues s) else queues s)
      in s\<lparr>queues := AList.update m (queue_of qs m @ [job]) qs, new_job_event := True\<rparr>)"

text \<open>The sort key of a candidate model: sticky preference for a model id that some
  active job already runs, then decreasing base priority.\<close>

definition sort_key_fn :: "models_cfg \<Rightarrow> ModelScoreConfig \<Rightarrow> Job list \<Rightarrow> string \<Rightarrow> int \<times> int" where
  "sort_key_fn models dflt active model_id =
     (let active_models = set (map resolved_model_id active);
          is_active = (if model_id \<in> active_models then 0 else 1);
          score_config = (case map_of models model_id of Some c \<Rightarrow> c | None \<Rightarrow> dflt);
          prio = base_priority score_config
      in (is_active, - prio))"

definition candidate_models :: "Scheduler \<Rightarrow> string list" where
  "candidate_models s = map fst (filter (\<lambda>(m, q). q \<noteq> []) (queues s))"

text \<open>The order in which one pass looks at the queues: Python's stable
  \<^verbatim>\<open>list.sort(key=sort_key)\<close>.\<close>

definition pass_order :: "models_cfg \<Rightarrow> ModelScoreConfig \<Rightarrow> Scheduler \<Rightarrow> string list" where
  "pass_order models dflt s =
     sort_key (sort_key_fn models dflt (active_jobs s)) (candidate_models s)"

text \<open>One iteration of \<^verbatim>\<open>for model_id in candidate_models\<close>, on the pair
  (\<^verbatim>\<open>started\<close>, scheduler).\<close>

definition try_start :: "models_cfg \<Rightarrow> string \<Rightarrow> nat \<times> Scheduler \<Rightarrow> nat \<times> Scheduler" where
  "try_start models model_id acc =
     (let (started, s) = acc; queue = queue_of (queues s) model_id
      in if queue = [] then acc
         else let job = hd queue
              in if ConcurrencyManager_can_run models (rules s) job (active_jobs s)
                 then (started + 1,
                       s\<lparr>queues := AList.update model_id (tl queue) (queues s),
                         active_jobs := active_jobs s @ [job],
                         spawned := spawned s @ [job]\<rparr>)
                 else acc)"

fun schedule_heads :: "models_cfg \<Rightarrow> string list \<Rightarrow> nat \<times> Scheduler \<Rightarrow> nat \<times> Scheduler" where
  "schedule_heads models [] acc = acc"
| "schedule_heads models (model_id # rest) acc =
     schedule_heads models rest (try_start models model_id acc)"

text \<open>
  \<^verbatim>\<open>_schedule_pending_jobs\<close>. The first argument is what
  \<^verbatim>\<open>global_config.load_models()\<close> does during the pass: it re-reads
  \<^verbatim>\<open>models.yaml\<close> on every call and raises when the file cannot be parsed. With
  no candidate the function returns before the file is read; with a candidate the sort
  calls \<^verbatim>\<open>sort_key\<close>, which reads it.
\<close>

definition schedule_pending_jobs ::
  "exn + models_cfg \<Rightarrow> ModelScoreConfig \<Rightarrow> Scheduler \<Rightarrow> exn + nat \<times> Scheduler" where
  "schedule_pending_jobs load_models dflt s =
     (if candidate_models s = [] then Inr (0, s)
      else case load_models of
             Inl e \<Rightarrow> Inl e
           | Inr models \<Rightarrow> Inr (schedule_heads models (pass_order models dflt s) (0, s)))"

text \<open>The completion path of \<^verbatim>\<open>_execute_job\<close> (its \<^verbatim>\<open>finally\<close> block)
  as far as the scheduler state goes: the job leaves the active list and the completion
  event is set.\<close>

definition finish_job :: "Job \<Rightarrow> Scheduler \<Rightarrow> Scheduler" where
  "finish_job job s =
     s\<lparr>active_jobs := (if job \<in> set (active_jobs s) then remove1 job (active_jobs s)
                        else active_jobs s),
       job_complete_event := True\<rparr>"

text \<open>What can happen to a scheduler: a job is enqueued, the dispatch loop runs a
  scheduling pass, an execution task finishes.\<close>

datatype sched_event = Enqueue Job | Pass | Finish Job

fun sched_step :: "models_cfg \<Rightarrow> ModelScoreConfig \<Rightarrow> Scheduler \<Rightarrow> sched_event \<Rightarrow> Scheduler" where
  "sched_step models dflt s (Enqueue job) = enqueue_job job s"
| "sched_step models dflt s Pass =
     (case schedule_pending_jobs (Inr models) dflt s of Inr (n, s') \<Rightarrow> s' | Inl e \<Rightarrow> s)"
| "sched_step models dflt s (Finish job) = finish_job job s"

definition run_events ::
  "models_cfg \<Rightarrow> ModelScoreConfig \<Rightarrow> sched_event list \<Rightarrow> Scheduler \<Rightarrow> Scheduler" where
  "run_events models dflt evs s = foldl (sched_step models dflt) s evs"

definition exclusive_running :: "models_cfg \<Rightarrow> Scheduler \<Rightarrow> bool" where
  "exclusive_running models s =
     list_ex (\<lambda>j. is_exclusive models (resolved_model_id j)) (active_jobs s)"

text \<open>Sample data: an exclusive model \<open>mX\<close> and a job for it.\<close>

definition mk_job :: "string \<Rightarrow> string \<Rightarrow> Job" where
  "mk_job jid model_id =
     \<lparr>job_id = jid, original_model_id = model_id, resolved_model_id = model_id,
      provider_id = None, route_name = None,
      request = \<lparr>model = model_id, messages = [\<lparr>role = ''user'', content = ''hi''\<rparr>]\<rparr>,
      status = ''pending'', error = None, normalized_error = None, response = None\<rparr>"

definition models_exclusive :: models_cfg where
  "models_exclusive =
     [(''mX'', ModelScoreConfig_default
                \<lparr>resources := ModelResourceConfig_default\<lparr>exclusive := True\<rparr>\<rparr>)]"

text \<open>The exclusive-model invariant together with what keeps it: the exclusive rule
  is installed.\<close>

definition excl_inv :: "models_cfg \<Rightarrow> Scheduler \<Rightarrow> bool" where
  "excl_inv models s =
     (ExclusiveModelRule \<in> set (rules s) \<and>
      (exclusive_running models s \<longrightarrow> length (active_jobs s) = 1))"



definition total_cpu :: "models_cfg \<Rightarrow> Job list \<Rightarrow> rat" where
  "total_cpu models active =
     sum_list (map (\<lambda>j. cpu_usage (get_resources models (resolved_model_id j))) active)"

definition total_gpu :: "models_cfg \<Rightarrow> Job list \<Rightarrow> rat" where
  "total_gpu models active =
     sum_list (map (\<lambda>j. gpu_usage (get_resources models (resolved_model_id j))) active)"










text \<open>
  For the statement of what a scheduling pass does: the queue heads in pass order, the
  admission decisions taken along a list of heads (each against the active list as the
  earlier admissions of the same pass have extended it), the heads that a list of
  decisions admits, and the queues after the admitted heads are popped.
\<close>

definition pass_heads :: "models_cfg \<Rightarrow> ModelScoreConfig \<Rightarrow> Scheduler \<Rightarrow> Job list" where
  "pass_heads models dflt s = map (\<lambda>m. hd (queue_of (queues s) m)) (pass_order models dflt s)"

definition admitted_of :: "Job list \<Rightarrow> bool list \<Rightarrow> Job list" where
  "admitted_of hs ds = map fst (filter snd (zip hs ds))"

fun admit_decisions ::
  "models_cfg \<Rightarrow> ConcurrencyRule list \<Rightarrow> Job list \<Rightarrow> Job list \<Rightarrow> bool list" where
  "admit_decisions models rs active [] = []"
| "admit_decisions models rs active (h # hs) =
     (let d = ConcurrencyManager_can_run models rs h active
      in d # admit_decisions models rs (if d then active @ [h] else active) hs)"

fun pop_heads :: "(string \<times> bool) list \<Rightarrow> (string \<times> Job list) list \<Rightarrow> (string \<times> Job list) list" where
  "pop_heads [] qs = qs"
| "pop_heads ((m, d) # rest) qs =
     pop_heads rest (if d then AList.update m (tl (queue_of qs m)) qs else qs)"

text \<open>
  Following the spec's words, for comparison with \<open>sort_key_fn\<close>: a candidate is
  active when its provider is already executing a job, that is, when the registry's
  model map gives it the provider of some active job's model.
\<close>

definition sort_key_spec ::
  "(string \<times> string) list \<Rightarrow> models_cfg \<Rightarrow> ModelScoreConfig \<Rightarrow> Job list \<Rightarrow> string \<Rightarrow> int \<times> int" where
  "sort_key_spec model_map models dflt active model_id =
     (let busy_providers = set (List.map_filter (\<lambda>j. map_of model_map (resolved_model_id j)) active);
          is_active = (case map_of model_map model_id of
                         Some p \<Rightarrow> if p \<in> busy_providers then 0 else 1
                       | None \<Rightarrow> 1);
          score_config = (case map_of models model_id of Some c \<Rightarrow> c | None \<Rightarrow> dflt)
      in (is_active, - base_priority score_config))"

text \<open>Sample data: models \<open>m1\<close> and \<open>m2\<close> are served by provider \<open>pA\<close>,
  \<open>m3\<close> by \<open>pB\<close> and has base priority 5; a job for \<open>m1\<close> runs while one job
  for \<open>m2\<close> and one for \<open>m3\<close> wait.\<close>

definition model_map_shared :: "(string \<times> string) list" where
  "model_map_shared = [(''m1'', ''pA''), (''m2'', ''pA''), (''m3'', ''pB'')]"

definition models_prio :: models_cfg where
  "models_prio = [(''m3'', ModelScoreConfig_default\<lparr>base_priority := 5\<rparr>)]"

definition sched_shared :: Scheduler where
  "sched_shared =
     run_events models_prio ModelScoreConfig_default
       [Enqueue (mk_job ''j1'' ''m1''), Pass,
        Enqueue (mk_job ''j2'' ''m2''), Enqueue (mk_job ''j3'' ''m3'')] Scheduler_init"

subsection \<open>The dispatch loop\<close>

text \<open>
  \<^verbatim>\<open>run_process_loop\<close> runs until the shutdown flag is set and suspends only in
  its two waits. The environment of one iteration is a \<open>tick\<close>: what
  \<^verbatim>\<open>load_models()\<close> yields during the pass, and what the other tasks do while
  the loop is suspended in its wait (jobs arrive, execution tasks finish, shutdown is
  requested). The list of ticks is the horizon of the model: when it is used up, or when
  the event the loop waits for is not set during the wait, the loop is still alive
  (\<open>StillRunning\<close>). The loop has no \<^verbatim>\<open>try\<close>: an exception of the pass or
  of a wait is the outcome \<open>Died\<close>.

  The second wait is \<^verbatim>\<open>asyncio.wait([ev1.wait(), ev2.wait()], ...)\<close> on two
  coroutine objects. What \<^verbatim>\<open>asyncio.wait\<close> does with coroutines depends on the
  interpreter: up to Python 3.10 it wraps them into tasks, from Python 3.11 on it raises
  \<^verbatim>\<open>TypeError\<close> before waiting. The repository does not fix the version, so it is
  a parameter of the loop.
\<close>

datatype asyncio_wait = WrapsCoroutines | ForbidsCoroutines

definition coroutines_forbidden :: exn where
  "coroutines_forbidden =
     PyError ''TypeError'' ''Passing coroutines is forbidden, use tasks explicitly.''"

datatype task_event = Arrives Job | Completes Job | RequestShutdown

fun other_task :: "Scheduler \<Rightarrow> task_event \<Rightarrow> Scheduler" where
  "other_task s (Arrives job) = enqueue_job job s"
| "other_task s (Completes job) = finish_job job s"
| "other_task s RequestShutdown = s\<lparr>shutdown_event := True\<rparr>"

record tick =
  tick_models :: "exn + models_cfg"
  meanwhile :: "task_event list"

datatype loop_outcome = Exited Scheduler | Died exn Scheduler | StillRunning Scheduler

fun run_process_loop ::
  "asyncio_wait \<Rightarrow> ModelScoreConfig \<Rightarrow> tick list \<Rightarrow> Scheduler \<Rightarrow> loop_outcome" where
  "run_process_loop aw dflt [] s = (if shutdown_event s then Exited s else StillRunning s)"
| "run_process_loop aw dflt (t # ts) s =
     (if shutdown_event s then Exited s
      else let s1 = s\<lparr>new_job_event := False, job_complete_event := False\<rparr>
           in case schedule_pending_jobs (tick_models t) dflt s1 of
                Inl e \<Rightarrow> Died e s1
              | Inr (scheduled_count, s2) \<Rightarrow>
                  if scheduled_count = 0 \<and> active_jobs s2 = [] then
                    (let s3 = foldl other_task s2 (meanwhile t)
                     in if new_job_event s3 then run_process_loop aw dflt ts s3
                        else StillRunning s3)
                  else if scheduled_count = 0 \<and> active_jobs s2 \<noteq> [] then
                    (case aw of
                       ForbidsCoroutines \<Rightarrow> Died coroutines_forbidden s2
                     | WrapsCoroutines \<Rightarrow>
                         (let s3 = foldl other_task s2 (meanwhile t)
                          in if job_complete_event s3 \<or> new_job_event s3
                             then run_process_loop aw dflt ts s3
                             else StillRunning s3))
                  else run_process_loop aw dflt ts s2)"

definition loads :: "tick \<Rightarrow> bool" where
  "loads t = (case tick_models t of Inl e \<Rightarrow> False | Inr models \<Rightarrow> True)"






section \<open>Provider adapters (\<^verbatim>\<open>providers/\<close>)\<close>

text \<open>
  A provider's configuration is the dict parsed from its YAML file; the record has the
  keys that the modelled code reads. \<open>api_models\<close> is
  \<^verbatim>\<open>config["api"].get("models")\<close> with its keys \<^verbatim>\<open>path\<close> and
  \<^verbatim>\<open>declared_models\<close>, each of which may be absent. \<open>detect_by_path\<close> is the
  test \<^verbatim>\<open>"path" in detect_method\<close>.
\<close>

record ModelsApi =
  models_path :: "string option"
  declared_models :: "string list option"

record ProviderConfig =
  cfg_provider_id :: "string option"
  provider_type :: "string option"
  api_models :: "ModelsApi option"
  start_enabled :: bool
  keep_warm :: bool
  detect_by_path :: bool
  binary_name :: "string option"

datatype provider_kind = OpenAICompatProvider | OllamaProvider

record Provider =
  kind :: provider_kind
  config :: ProviderConfig

definition is_managed :: "Provider \<Rightarrow> bool" where
  "is_managed provider = start_enabled (config provider)"

text \<open>
  What an HTTP GET of the model list comes back with: a response with its status code and
  the model ids read from its JSON body (\<open>None\<close> when the body does not have the
  expected shape, which raises inside the adapter's \<^verbatim>\<open>try\<close>), or a transport
  exception. An adapter call returns its value, or the exception it raises, together
  with the list of paths it has requested.
\<close>

datatype http_result = HttpResponse int "string list option" | HttpFailure string

definition http_list_models ::
  "string \<Rightarrow> (string \<Rightarrow> http_result) \<Rightarrow> (exn + string list) \<times> string list" where
  "http_list_models path http_get =
     (case http_get path of
        HttpResponse status_code body \<Rightarrow>
          if status_code = 200
          then (case body of Some ids \<Rightarrow> (Inr ids, [path]) | None \<Rightarrow> (Inr [], [path]))
          else (Inr [], [path])
      | HttpFailure msg \<Rightarrow> (Inr [], [path]))"

text \<open>\<^verbatim>\<open>self.config["api"]["models"]["path"]\<close>, evaluated outside the
  \<^verbatim>\<open>try\<close>.\<close>

definition config_models_path :: "ProviderConfig \<Rightarrow> exn + string" where
  "config_models_path cfg =
     (case api_models cfg of
        None \<Rightarrow> Inl (PyError ''KeyError'' ([CHR 0x27] @ ''models'' @ [CHR 0x27]))
      | Some ms \<Rightarrow> (case models_path ms of
                     None \<Rightarrow> Inl (PyError ''KeyError'' ([CHR 0x27] @ ''path'' @ [CHR 0x27]))
                   | Some path \<Rightarrow> Inr path))"

definition OpenAICompatProvider_list_models ::
  "ProviderConfig \<Rightarrow> (string \<Rightarrow> http_result) \<Rightarrow> (exn + string list) \<times> string list" where
  "OpenAICompatProvider_list_models cfg http_get =
     (let declared = (case api_models cfg of None \<Rightarrow> None | Some ms \<Rightarrow> declared_models ms)
      in case declared of
           Some (m # ms) \<Rightarrow> (Inr (m # ms), [])
         | _ \<Rightarrow> (case config_models_path cfg of
                   Inl e \<Rightarrow> (Inl e, [])
                 | Inr path \<Rightarrow> http_list_models path http_get))"

definition OllamaProvider_list_models ::
  "ProviderConfig \<Rightarrow> (string \<Rightarrow> http_result) \<Rightarrow> (exn + string list) \<times> string list" where
  "OllamaProvider_list_models cfg http_get =
     (case config_models_path cfg of
        Inl e \<Rightarrow> (Inl e, [])
      | Inr path \<Rightarrow> http_list_models path http_get)"

fun list_models ::
  "Provider \<Rightarrow> (string \<Rightarrow> http_result) \<Rightarrow> (exn + string list) \<times> string list" where
  "list_models provider http_get =
     (case kind provider of
        OpenAICompatProvider \<Rightarrow> OpenAICompatProvider_list_models (config provider) http_get
      | OllamaProvider \<Rightarrow> OllamaProvider_list_models (config provider) http_get)"

text \<open>Sample data: a provider configuration that declares its models, and a backend
  that answers the listing request with one other model.\<close>

definition cfg_declared :: ProviderConfig where
  "cfg_declared =
     \<lparr>cfg_provider_id = Some ''pA'', provider_type = Some ''ollama'',
      api_models = Some \<lparr>models_path = Some ''/api/tags'', declared_models = Some [''m1'', ''m2'']\<rparr>,
      start_enabled = False, keep_warm = False, detect_by_path = False, binary_name = None\<rparr>"

definition http_one_model :: "string \<Rightarrow> http_result" where
  "http_one_model path = HttpResponse 200 (Some [''m9''])"

definition http_unavailable :: "string \<Rightarrow> http_result" where
  "http_unavailable path = HttpResponse 503 None"

section \<open>The registry (\<^verbatim>\<open>registry.py\<close>)\<close>

text \<open>
  \<^verbatim>\<open>providers\<close> and \<^verbatim>\<open>model_map\<close> are dicts, kept as association
  lists in insertion order.
\<close>

record Registry =
  providers :: "(string \<times> Provider) list"
  model_map :: "(string \<times> string) list"
  last_refresh_timestamp :: real

definition Registry_init :: Registry where
  "Registry_init = \<lparr>providers = [], model_map = [], last_refresh_timestamp = 0\<rparr>"

text \<open>\<^verbatim>\<open>_register_provider\<close>: a configuration without provider id or of an
  unknown type is dropped.\<close>

definition register_provider :: "ProviderConfig \<Rightarrow> Registry \<Rightarrow> Registry" where
  "register_provider cfg reg =
     (case cfg_provider_id cfg of
        None \<Rightarrow> reg
      | Some p_id \<Rightarrow>
          if p_id = [] then reg
          else if provider_type cfg = Some ''ollama''
          then reg\<lparr>providers := AList.update p_id \<lparr>kind = OllamaProvider, config = cfg\<rparr> (providers reg)\<rparr>
          else if provider_type cfg = Some ''openai_compat''
          then reg\<lparr>providers := AList.update p_id \<lparr>kind = OpenAICompatProvider, config = cfg\<rparr> (providers reg)\<rparr>
          else reg)"

text \<open>\<^verbatim>\<open>load_providers_from_disk\<close>, on the configurations parsed from the YAML
  files of the providers directory in listing order (a file that fails to load is
  skipped by the code and is not in the list).\<close>

fun load_providers_from_disk :: "ProviderConfig list \<Rightarrow> Registry \<Rightarrow> Registry" where
  "load_providers_from_disk [] reg = reg"
| "load_providers_from_disk (cfg # rest) reg = load_providers_from_disk rest (register_provider cfg reg)"

text \<open>
  What the outside world answers while one provider is probed: whether its binary is on
  the path, the first health check, \<^verbatim>\<open>start()\<close>, the health check after the
  grace period, the backend's answers to the HTTP requests of \<^verbatim>\<open>list_models()\<close>,
  and \<^verbatim>\<open>stop()\<close>. The registry awaits the adapter methods outside any
  \<^verbatim>\<open>try\<close>, and each of them reads keys of the provider's configuration outside
  its own \<^verbatim>\<open>try\<close> (\<^verbatim>\<open>config["api"]["health"]["path"]\<close>,
  \<^verbatim>\<open>config["start"]["command"]\<close>, \<^verbatim>\<open>config["stop"]["method"]\<close>), so
  a call returns its value or raises. A health check that raises does so before its
  first \<^verbatim>\<open>await\<close>.
\<close>

record probe_result =
  binary_on_path :: bool
  healthy :: "exn + bool"
  start_ok :: "exn + bool"
  healthy_after_start :: "exn + bool"
  models_http :: "string \<Rightarrow> http_result"
  stop_error :: "exn option"

text \<open>The loop \<^verbatim>\<open>for m in models\<close>: the first owner of a model id wins.\<close>

fun register_models :: "string \<Rightarrow> string list \<Rightarrow> (string \<times> string) list \<Rightarrow> (string \<times> string) list" where
  "register_models p_id [] mm = mm"
| "register_models p_id (m # ms) mm =
     register_models p_id ms (if map_of mm m \<noteq> None then mm else mm @ [(m, p_id)])"

text \<open>The test \<^verbatim>\<open>binary and not which(binary)\<close>.\<close>

definition binary_missing :: "probe_result \<Rightarrow> Provider \<Rightarrow> bool" where
  "binary_missing w provider =
     (case binary_name (config provider) of
        Some b \<Rightarrow> b \<noteq> [] \<and> \<not> binary_on_path w
      | None \<Rightarrow> False)"

text \<open>The start attempt for a managed provider that is not healthy: the value of
  \<^verbatim>\<open>is_healthy\<close> afterwards.\<close>

definition start_and_recheck :: "probe_result \<Rightarrow> bool \<Rightarrow> exn + bool" where
  "start_and_recheck w is_healthy =
     (case start_ok w of
        Inl e \<Rightarrow> Inl e
      | Inr started \<Rightarrow> if started then healthy_after_start w else Inr is_healthy)"

text \<open>
  The body of the loop of \<^verbatim>\<open>detect_and_register_models\<close> for a provider that
  is not skipped, on the model map \<open>mm\<close>. The loop mutates \<^verbatim>\<open>self.model_map\<close>
  in place and suspends in the awaited probes; between two suspensions other tasks run
  and read the map. The result is: the contents of the map at the suspensions of this
  iteration (the map does not change between the provider's health check and the return
  of its model listing, and \<^verbatim>\<open>stop()\<close> does not suspend); the exception that
  ends the iteration, if any; and the map at the end of the iteration.
\<close>

definition probe_and_register ::
  "probe_result \<Rightarrow> string \<Rightarrow> Provider \<Rightarrow> (string \<times> string) list \<Rightarrow>
   (string \<times> string) list list \<times> exn option \<times> (string \<times> string) list" where
  "probe_and_register w p_id provider mm =
     (case healthy w of
        Inl e \<Rightarrow> ([], Some e, mm)
      | Inr is_healthy \<Rightarrow>
          (case (if \<not> is_healthy \<and> is_managed provider then start_and_recheck w is_healthy
                 else Inr is_healthy) of
             Inl e \<Rightarrow> ([mm], Some e, mm)
           | Inr is_healthy1 \<Rightarrow>
               if is_healthy1
               then (case fst (list_models provider (models_http w)) of
                       Inl e \<Rightarrow> ([mm], Some e, mm)
                     | Inr models \<Rightarrow>
                         ([mm],
                          if is_managed provider \<and> \<not> keep_warm (config provider)
                          then stop_error w else None,
                          register_models p_id models mm))
               else ([mm], None, mm)))"

text \<open>The loop over the providers: a managed provider whose binary is missing is
  skipped, and an exception ends the loop.\<close>

fun probe_providers ::
  "(string \<Rightarrow> probe_result) \<Rightarrow> (string \<times> Provider) list \<Rightarrow> (string \<times> string) list \<Rightarrow>
   (string \<times> string) list list \<times> exn option \<times> (string \<times> string) list" where
  "probe_providers world [] mm = ([], None, mm)"
| "probe_providers world ((p_id, provider) # rest) mm =
     (if detect_by_path (config provider) \<and> binary_missing (world p_id) provider \<and>
         is_managed provider
      then probe_providers world rest mm
      else
        case probe_and_register (world p_id) p_id provider mm of
          (seen, Some e, mm') \<Rightarrow> (seen, Some e, mm')
        | (seen, None, mm') \<Rightarrow>
            (case probe_providers world rest mm' of
               (seen', raised, final) \<Rightarrow> (seen @ seen', raised, final)))"

text \<open>\<^verbatim>\<open>detect_and_register_models\<close>: what readers saw, the exception raised,
  and the registry it leaves.\<close>

definition detect_and_register_models ::
  "(string \<Rightarrow> probe_result) \<Rightarrow> Registry \<Rightarrow>
   (string \<times> string) list list \<times> exn option \<times> Registry" where
  "detect_and_register_models world reg =
     (case probe_providers world (providers reg) [] of
        (seen, raised, final) \<Rightarrow> (seen, raised, reg\<lparr>model_map := final\<rparr>))"

text \<open>
  \<^verbatim>\<open>refresh\<close> at event-loop time \<open>now\<close>: what readers saw and the registry it
  leaves. There is no cooldown check. The time stamp is assigned after the awaited
  detection, so not when the detection raises. \<open>refresh_error\<close> is the exception with
  which the same call ends, if it raises.
\<close>

definition refresh ::
  "real \<Rightarrow> ProviderConfig list \<Rightarrow> (string \<Rightarrow> probe_result) \<Rightarrow> Registry \<Rightarrow>
   (string \<times> string) list list \<times> Registry" where
  "refresh now disk world reg =
     (let reg1 = load_providers_from_disk disk (reg\<lparr>providers := []\<rparr>)
      in case detect_and_register_models world reg1 of
           (seen, Some e, reg2) \<Rightarrow> (seen, reg2)
         | (seen, None, reg2) \<Rightarrow> (seen, reg2\<lparr>last_refresh_timestamp := now\<rparr>))"

definition refresh_error ::
  "ProviderConfig list \<Rightarrow> (string \<Rightarrow> probe_result) \<Rightarrow> Registry \<Rightarrow> exn option" where
  "refresh_error disk world reg =
     (let reg1 = load_providers_from_disk disk (reg\<lparr>providers := []\<rparr>)
      in case detect_and_register_models world reg1 of (seen, raised, reg2) \<Rightarrow> raised)"

definition get_provider_for_model :: "Registry \<Rightarrow> string \<Rightarrow> Provider option" where
  "get_provider_for_model reg model_id =
     (case map_of (model_map reg) model_id of
        Some p_id \<Rightarrow> if p_id \<noteq> [] then map_of (providers reg) p_id else None
      | None \<Rightarrow> None)"

text \<open>Sample data: two unmanaged, healthy providers, \<open>pA\<close> serving \<open>m1\<close> and
  \<open>pB\<close> serving \<open>m2\<close>, and a registry that already knows both.\<close>

definition cfg_of :: "string \<Rightarrow> string \<Rightarrow> ProviderConfig" where
  "cfg_of p_id p_type =
     \<lparr>cfg_provider_id = Some p_id, provider_type = Some p_type,
      api_models = Some \<lparr>models_path = Some ''/v1/models'', declared_models = None\<rparr>,
      start_enabled = False, keep_warm = False, detect_by_path = False, binary_name = None\<rparr>"

definition disk_two :: "ProviderConfig list" where
  "disk_two = [cfg_of ''pA'' ''openai_compat'', cfg_of ''pB'' ''ollama'']"

definition world_two :: "string \<Rightarrow> probe_result" where
  "world_two p_id =
     \<lparr>binary_on_path = True, healthy = Inr True, start_ok = Inr True,
      healthy_after_start = Inr True,
      models_http = (\<lambda>path. HttpResponse 200
         (Some (if p_id = ''pA'' then [''m1''] else if p_id = ''pB'' then [''m2''] else []))),
      stop_error = None\<rparr>"


definition world_pB_down :: "string \<Rightarrow> probe_result" where
  "world_pB_down p_id = (world_two p_id)\<lparr>healthy := Inr (p_id \<noteq> ''pB'')\<rparr>"

definition registry_two :: Registry where
  "registry_two = snd (refresh 100 disk_two world_two Registry_init)"

section \<open>Job execution (\<^verbatim>\<open>_execute_job\<close> and the adapters' \<^verbatim>\<open>chat_completion\<close>)\<close>

text \<open>Decimal rendering of a status code inside an f-string.\<close>

fun str_nat :: "nat \<Rightarrow> string" where
  "str_nat n =
     (if n < 10 then [char_of (48 + n)] else str_nat (n div 10) @ [char_of (48 + n mod 10)])"

declare str_nat.simps [simp del]

definition str_int :: "int \<Rightarrow> string" where
  "str_int i = (if i < 0 then ''-'' @ str_nat (nat (- i)) else str_nat (nat i))"

text \<open>
  What the backend does with the chat request: it answers with a status code, a body
  text and, for status 200, either the response built from the body or the message of
  the exception raised while building it; or the connection fails, the read times out,
  or some other exception is raised inside the adapter's \<^verbatim>\<open>try\<close>.
\<close>

datatype chat_reply =
    ChatResponse int string "string + ChatCompletionResponse"
  | ConnectError
  | ReadTimeout
  | OtherFailure string

definition provider_id_str :: "Provider \<Rightarrow> string" where
  "provider_id_str provider =
     (case cfg_provider_id (config provider) of Some p \<Rightarrow> p | None \<Rightarrow> ''None'')"

definition chat_completion :: "Provider \<Rightarrow> chat_reply \<Rightarrow> exn + ChatCompletionResponse" where
  "chat_completion provider reply =
     (case reply of
        ChatResponse status_code text built \<Rightarrow>
          if status_code \<noteq> 200
          then Inl (GatewayError_init
                 ((case kind provider of OpenAICompatProvider \<Rightarrow> ''Provider error: ''
                   | OllamaProvider \<Rightarrow> ''Ollama error: '') @ str_int status_code @ '' - '' @ text)
                 None)
          else (case built of
                  Inr resp \<Rightarrow> Inr resp
                | Inl msg \<Rightarrow> Inl (GatewayError_init (''Unknown error: '' @ msg) None))
      | ConnectError \<Rightarrow> Inl (ProviderUnreachableError (provider_id_str provider) [])
      | ReadTimeout \<Rightarrow> Inl (ProviderTimeoutError (provider_id_str provider))
      | OtherFailure msg \<Rightarrow> Inl (GatewayError_init (''Unknown error: '' @ msg) None))"

text \<open>What a provider does while a job runs on it: the health check, the outcome of
  \<^verbatim>\<open>start()\<close> (which can raise on a malformed \<^verbatim>\<open>start\<close> section) and
  the backend's answer to the chat request.\<close>

record backend =
  health_check_ok :: bool
  start_outcome :: "exn + bool"
  chat :: chat_reply

text \<open>The \<^verbatim>\<open>except Exception as e\<close> block.\<close>

definition job_failed :: "exn \<Rightarrow> Job \<Rightarrow> Job" where
  "job_failed e job =
     job\<lparr>status := ''error'', error := Some (exn_str e),
         normalized_error := (case exn_normalized_code e of
                                Some c \<Rightarrow> Some c
                              | None \<Rightarrow> normalized_error job)\<rparr>"

text \<open>
  \<^verbatim>\<open>_execute_job\<close>: the job when its execution task is done. The
  \<^verbatim>\<open>finally\<close> block's effect on the scheduler is \<open>finish_job\<close>; the log record
  is not modelled. The no-provider failure is raised as
  \<^verbatim>\<open>GatewayError(f"No provider found for {...}", 500)\<close>.
\<close>

definition execute_job :: "Registry \<Rightarrow> (string \<Rightarrow> backend) \<Rightarrow> Job \<Rightarrow> Job" where
  "execute_job reg backends job =
     (let job0 = job\<lparr>status := ''running''\<rparr>
      in case get_provider_for_model reg (resolved_model_id job0) of
           None \<Rightarrow>
             job_failed
               (GatewayError_init (''No provider found for '' @ resolved_model_id job0)
                  (Some (PInt 500)))
               job0
         | Some provider \<Rightarrow>
             let job1 = job0\<lparr>provider_id := cfg_provider_id (config provider)\<rparr>;
                 b = backends (provider_id_str provider);
                 started = (if \<not> health_check_ok b then start_outcome b else Inr True)
             in case started of
                  Inl e \<Rightarrow> job_failed e job1
                | Inr ok \<Rightarrow>
                    (case chat_completion provider (chat b) of
                       Inl e \<Rightarrow> job_failed e job1
                     | Inr resp \<Rightarrow> job1\<lparr>response := Some resp, status := ''completed''\<rparr>))"

text \<open>The controller's reading of a job's code, \<^verbatim>\<open>job.normalized_error or "other"\<close>.\<close>

definition norm_error_of :: "Job \<Rightarrow> pyval" where
  "norm_error_of job =
     (case normalized_error job of
        Some v \<Rightarrow> if truthy v then v else PStr ''other''
      | None \<Rightarrow> PStr ''other'')"

text \<open>Sample data: backends that are healthy and time out, answer, or run out of
  memory without saying so in a normalized way.\<close>

definition sample_response :: ChatCompletionResponse where
  "sample_response =
     \<lparr>response_id = ''chatcmpl-1'', response_model = ''m2'',
      choices = [\<lparr>role = ''assistant'', content = ''hello''\<rparr>]\<rparr>"

definition backends_two :: "string \<Rightarrow> backend" where
  "backends_two p_id =
     (if p_id = ''pA''
      then \<lparr>health_check_ok = True, start_outcome = Inr True, chat = ReadTimeout\<rparr>
      else \<lparr>health_check_ok = True, start_outcome = Inr True,
            chat = ChatResponse 200 ''{}'' (Inr sample_response)\<rparr>)"

section \<open>The route resolver (\<^verbatim>\<open>routing.py\<close>) and the request controller (\<^verbatim>\<open>app.py\<close>)\<close>

definition resolve_model ::
  "(string \<times> RouteConfig) list \<Rightarrow> string \<Rightarrow> string \<times> string option \<times> string list \<times> string list" where
  "resolve_model routes model_input =
     (if take 6 model_input = ''route:''
      then let route_name = drop 6 model_input
           in case map_of routes route_name of
                Some route_config \<Rightarrow>
                  (primary_model route_config, Some route_name,
                   fallback_models route_config, fallback_on route_config)
              | None \<Rightarrow> (model_input, None, [], [])
      else (model_input, None, [], []))"

text \<open>
  An entry of \<^verbatim>\<open>attempts_log\<close>: the dict has the keys \<^verbatim>\<open>model\<close> and
  \<^verbatim>\<open>error\<close>, and for a job that ran also \<^verbatim>\<open>normalized\<close>. The request
  either returns the response, or raises \<^verbatim>\<open>HTTPException\<close> with a status code and
  the attempts in its detail, or lets another exception escape from the handler
  (\<open>Unhandled\<close>).
\<close>

record attempt =
  attempt_model :: string
  attempt_error :: "string option"
  attempt_normalized :: "pyval option"

datatype http_reply =
    Returned ChatCompletionResponse
  | HTTPException int "attempt list"
  | Unhandled exn

text \<open>
  The environment of the controller while it handles one candidate: the id the new job
  gets, the event-loop time and the state of the providers when a refresh runs, and what
  becomes of the enqueued job (\<open>None\<close> when the scheduler never brings it to a terminal
  state, so that the controller polls forever).
\<close>

record attempt_env =
  new_job_id :: string
  loop_time :: real
  provider_files :: "ProviderConfig list"
  probes :: "string \<Rightarrow> probe_result"
  fate :: "Job \<Rightarrow> Job option"

text \<open>Lines 86 to 89 of \<^verbatim>\<open>app.py\<close>: the refresh on a miss. Neither these lines
  nor \<^verbatim>\<open>Registry.refresh\<close> look at \<^verbatim>\<open>refresh_cooldown_seconds\<close> or at
  \<^verbatim>\<open>last_refresh_timestamp\<close>.\<close>

definition refresh_on_miss :: "AppConfig \<Rightarrow> attempt_env \<Rightarrow> string \<Rightarrow> Registry \<Rightarrow> Registry" where
  "refresh_on_miss cfg e model_id reg =
     (if map_of (model_map reg) model_id = None
      then (if auto_refresh_on_miss (runtime cfg)
            then snd (refresh (loop_time e) (provider_files e) (probes e) reg) else reg)
      else reg)"

text \<open>The exception with which these lines end when the awaited refresh raises; the
  handler does not catch it.\<close>

definition refresh_on_miss_error ::
  "AppConfig \<Rightarrow> attempt_env \<Rightarrow> string \<Rightarrow> Registry \<Rightarrow> exn option" where
  "refresh_on_miss_error cfg e model_id reg =
     (if map_of (model_map reg) model_id = None
      then (if auto_refresh_on_miss (runtime cfg)
            then refresh_error (provider_files e) (probes e) reg else None)
      else None)"

text \<open>The job built for a candidate. The request object is shared with the job, so
  patching \<^verbatim>\<open>job.request.model\<close> patches the controller's request as well.\<close>

definition make_job :: "attempt_env \<Rightarrow> string option \<Rightarrow> ChatCompletionRequest \<Rightarrow> string \<Rightarrow> Job" where
  "make_job e route model_request model_id =
     \<lparr>job_id = new_job_id e, original_model_id = model model_request,
      resolved_model_id = model_id, provider_id = None, route_name = route,
      request = model_request\<lparr>model := model_id\<rparr>,
      status = ''pending'', error = None, normalized_error = None, response = None\<rparr>"

text \<open>The response of a job for which \<^verbatim>\<open>job.status == "completed" and job.response\<close>
  holds.\<close>

definition completed_response :: "Job \<Rightarrow> ChatCompletionResponse option" where
  "completed_response job = (if status job = ''completed'' then response job else None)"

definition error_attempt :: "string \<Rightarrow> Job \<Rightarrow> attempt" where
  "error_attempt model_id job =
     \<lparr>attempt_model = model_id, attempt_error = error job,
      attempt_normalized = Some (norm_error_of job)\<rparr>"

definition not_found_attempt :: "string \<Rightarrow> attempt" where
  "not_found_attempt model_id =
     \<lparr>attempt_model = model_id, attempt_error = Some (''Model '' @ model_id @ '' not found''),
      attempt_normalized = None\<rparr>"

text \<open>
  The body of \<^verbatim>\<open>for i, model_id in enumerate(candidates)\<close>. \<open>has_next\<close> is
  the test \<^verbatim>\<open>i < len(candidates) - 1\<close>. The state of the loop is the (shared)
  request, the registry, \<^verbatim>\<open>attempts_log\<close> and the jobs enqueued so far.
\<close>

datatype step_result =
    Next ChatCompletionRequest Registry "attempt list" "Job list"
  | Finished http_reply Registry "Job list"
  | Polling

definition candidate_step ::
  "AppConfig \<Rightarrow> attempt_env \<Rightarrow> string option \<Rightarrow> string list \<Rightarrow> string \<Rightarrow> bool \<Rightarrow>
   ChatCompletionRequest \<Rightarrow> Registry \<Rightarrow> attempt list \<Rightarrow> Job list \<Rightarrow> step_result" where
  "candidate_step cfg e route fallback_triggers model_id has_next model_request reg attempts_log enqueued =
     (let reg1 = refresh_on_miss cfg e model_id reg
      in case refresh_on_miss_error cfg e model_id reg of
           Some raised \<Rightarrow> Finished (Unhandled raised) reg1 enqueued
         | None \<Rightarrow>
             (if map_of (model_map reg1) model_id = None
              then Next model_request reg1 (attempts_log @ [not_found_attempt model_id]) enqueued
              else
                let job = make_job e route model_request model_id;
                    request1 = model_request\<lparr>model := model_id\<rparr>;
                    enqueued1 = enqueued @ [job]
                in (case fate e job of
                      None \<Rightarrow> Polling
                    | Some final \<Rightarrow>
                        if status final = ''pending'' \<or> status final = ''running'' then Polling
                        else (case completed_response final of
                                Some resp \<Rightarrow> Finished (Returned resp) reg1 enqueued1
                              | None \<Rightarrow>
                                  let norm_error = norm_error_of final;
                                      log1 = attempts_log @ [error_attempt model_id final]
                                  in if has_next
                                     then (if enable_fallback (routing cfg) \<and>
                                              norm_error \<in> set (map PStr fallback_triggers)
                                           then Next request1 reg1 log1 enqueued1
                                           else Finished (HTTPException 500 log1) reg1 enqueued1)
                                     else Finished (HTTPException 500 log1) reg1 enqueued1))))"

fun try_candidates ::
  "AppConfig \<Rightarrow> (nat \<Rightarrow> attempt_env) \<Rightarrow> string option \<Rightarrow> string list \<Rightarrow> nat \<Rightarrow> string list \<Rightarrow>
   ChatCompletionRequest \<Rightarrow> Registry \<Rightarrow> attempt list \<Rightarrow> Job list \<Rightarrow>
   (http_reply \<times> Registry \<times> Job list) option" where
  "try_candidates cfg env route fallback_triggers i [] model_request reg attempts_log enqueued =
     Some (HTTPException 500 attempts_log, reg, enqueued)"
| "try_candidates cfg env route fallback_triggers i (model_id # rest) model_request reg attempts_log enqueued =
     (case candidate_step cfg (env i) route fallback_triggers model_id (rest \<noteq> [])
             model_request reg attempts_log enqueued of
        Next request1 reg1 log1 enqueued1 \<Rightarrow>
          try_candidates cfg env route fallback_triggers (Suc i) rest request1 reg1 log1 enqueued1
      | Finished reply reg1 enqueued1 \<Rightarrow> Some (reply, reg1, enqueued1)
      | Polling \<Rightarrow> None)"

text \<open>\<^verbatim>\<open>chat_completions\<close>: the reply, the registry afterwards and the jobs that
  were enqueued; \<open>None\<close> when the request never returns.\<close>

definition chat_completions ::
  "AppConfig \<Rightarrow> (string \<times> RouteConfig) list \<Rightarrow> (nat \<Rightarrow> attempt_env) \<Rightarrow> ChatCompletionRequest \<Rightarrow>
   Registry \<Rightarrow> (http_reply \<times> Registry \<times> Job list) option" where
  "chat_completions cfg routes env model_request reg =
     (case resolve_model routes (model model_request) of
        (primary, route, fallbacks, fallback_triggers) \<Rightarrow>
          try_candidates cfg env route fallback_triggers 0 (primary # fallbacks)
            model_request reg [] [])"

text \<open>Sample data: route \<open>r1\<close> from \<open>m1\<close> to \<open>m2\<close> on a timeout, route \<open>r0\<close>
  with an empty trigger set, and an environment in which nothing changes on disk and
  every job runs on the sample backends.\<close>

definition routes_sample :: "(string \<times> RouteConfig) list" where
  "routes_sample =
     [(''r1'', \<lparr>primary_model = ''m1'', fallback_models = [''m2''], fallback_on = [''timeout'']\<rparr>),
      (''r0'', \<lparr>primary_model = ''m1'', fallback_models = [''m2''], fallback_on = []\<rparr>)]"

definition env_sample :: "nat \<Rightarrow> attempt_env" where
  "env_sample i =
     \<lparr>new_job_id = ''job-'' @ str_nat i, loop_time = 101 + real i, provider_files = disk_two,
      probes = world_two,
      fate = (\<lambda>job. Some (execute_job registry_two backends_two job))\<rparr>"

definition request_for :: "string \<Rightarrow> ChatCompletionRequest" where
  "request_for m = \<lparr>model = m, messages = [\<lparr>role = ''user'', content = ''hi''\<rparr>]\<rparr>"





definition job_r0 :: Job where
  "job_r0 = make_job (env_sample 0) (Some ''r0'') (request_for ''route:r0'') ''m1''"


definition final_r0 :: Job where
  "final_r0 = execute_job registry_two backends_two job_r0"

section \<open>Scheduler objects and the health endpoint (\<^verbatim>\<open>app.py\<close>)\<close>

text \<open>
  A Python object as far as attribute lookup goes: the name of its class, the names the
  class defines (its methods) and the instance attributes in the order in which
  \<^verbatim>\<open>__init__\<close> assigns them. Neither scheduler class defines
  \<^verbatim>\<open>__getattr__\<close>, so a name found in neither place raises
  \<^verbatim>\<open>AttributeError\<close>.
\<close>

record pyobject =
  class_name :: string
  class_attrs :: "string list"
  instance_attrs :: "(string \<times> pyval) list"

definition getattr :: "pyobject \<Rightarrow> string \<Rightarrow> exn + pyval" where
  "getattr obj name =
     (case map_of (instance_attrs obj) name of
        Some v \<Rightarrow> Inr v
      | None \<Rightarrow>
          if name \<in> set (class_attrs obj) then Inr (PObject ''method'')
          else Inl (PyError ''AttributeError''
                 ([CHR 0x27] @ class_name obj @ [CHR 0x27] @ '' object has no attribute '' @
                  [CHR 0x27] @ name @ [CHR 0x27])))"

text \<open>
  The instance that \<^verbatim>\<open>queuing/scheduler.py\<close> creates as
  \<^verbatim>\<open>global_scheduler\<close>, in scheduler state \<open>s\<close> and with \<open>task\<close> as the
  value of \<^verbatim>\<open>processing_task\<close>. Jobs are shown by their ids. No method of the
  class assigns any other attribute.
\<close>

definition jobs_value :: "Job list \<Rightarrow> pyval" where
  "jobs_value js = PList (map (\<lambda>j. PStr (job_id j)) js)"

definition scheduler_object :: "Scheduler \<Rightarrow> pyval \<Rightarrow> pyobject" where
  "scheduler_object s task =
     \<lparr>class_name = ''Scheduler'',
      class_attrs = [''__init__'', ''_setup_default_rules'', ''enqueue_job'', ''run_process_loop'',
                     ''_schedule_pending_jobs'', ''_execute_job''],
      instance_attrs =
        [(''queues'', PDict (map (\<lambda>(m, q). (m, jobs_value q)) (queues s))),
         (''active_jobs'', jobs_value (active_jobs s)),
         (''concurrency_manager'', PObject ''ConcurrencyManager''),
         (''processing_task'', task),
         (''_shutdown_event'', PBool (shutdown_event s)),
         (''_job_complete_event'', PBool (job_complete_event s)),
         (''_new_job_event'', PBool (new_job_event s))]\<rparr>"

text \<open>The instance that the legacy \<^verbatim>\<open>scheduler.py\<close> creates: a single active
  model and provider.\<close>

record LegacyScheduler =
  legacy_queues :: "(string \<times> Job list) list"
  active_model_id :: "string option"
  active_provider_id :: "string option"

definition optional_str :: "string option \<Rightarrow> pyval" where
  "optional_str x = (case x of None \<Rightarrow> PNone | Some v \<Rightarrow> PStr v)"

definition legacy_scheduler_object :: "LegacyScheduler \<Rightarrow> pyval \<Rightarrow> pyobject" where
  "legacy_scheduler_object l task =
     \<lparr>class_name = ''Scheduler'',
      class_attrs = [''__init__'', ''enqueue_job'', ''process_queue'', ''pick_next_model''],
      instance_attrs =
        [(''queues'', PDict (map (\<lambda>(m, q). (m, jobs_value q)) (legacy_queues l))),
         (''active_model_id'', optional_str (active_model_id l)),
         (''active_provider_id'', optional_str (active_provider_id l)),
         (''global_lock'', PObject ''Lock''),
         (''processing_task'', task)]\<rparr>"

text \<open>The handler of \<^verbatim>\<open>GET /health\<close> with the scheduler object it reads; the
  values of the dict are evaluated in source order.\<close>

record health_payload =
  health_status :: string
  active_model :: pyval
  active_provider :: pyval
  registry_models :: "string list"

definition health :: "pyobject \<Rightarrow> Registry \<Rightarrow> exn + health_payload" where
  "health global_scheduler reg =
     (case getattr global_scheduler ''active_model_id'' of
        Inl e \<Rightarrow> Inl e
      | Inr am \<Rightarrow>
          (case getattr global_scheduler ''active_provider_id'' of
             Inl e \<Rightarrow> Inl e
           | Inr ap \<Rightarrow>
               Inr \<lparr>health_status = ''ok'', active_model = am, active_provider = ap,
                    registry_models = map fst (model_map reg)\<rparr>))"

text \<open>\<^verbatim>\<open>app.py\<close> imports \<^verbatim>\<open>global_scheduler\<close> from
  \<^verbatim>\<open>.queuing.scheduler\<close>.\<close>

definition app_health :: "Scheduler \<Rightarrow> pyval \<Rightarrow> Registry \<Rightarrow> exn + health_payload" where
  "app_health s task reg = health (scheduler_object s task) reg"

section \<open>Properties of the concurrency rules and of admission\<close>

lemma no_exclusive_running_iff:
  "no_exclusive_running models active =
     (\<not> list_ex (\<lambda>j. is_exclusive models (resolved_model_id j)) active)"
  by (induction active) auto

lemma manager_can_run_iff:
  "ConcurrencyManager_can_run models rs job active =
     list_all (\<lambda>r. rule_can_run models r job active) rs"
  by (induction rs) auto

lemma manager_exclusive:
  "ExclusiveModelRule \<in> set rs \<Longrightarrow> ConcurrencyManager_can_run models rs job active \<Longrightarrow>
   ExclusiveModelRule_can_run models job active"
  by (auto simp: manager_can_run_iff list_all_iff)

lemma exclusive_rule_admit:
  assumes "ExclusiveModelRule_can_run models job active"
  shows "\<not> list_ex (\<lambda>j. is_exclusive models (resolved_model_id j)) active"
    and "is_exclusive models (resolved_model_id job) \<Longrightarrow> active = []"
  using assms by (auto simp: ExclusiveModelRule_can_run_def no_exclusive_running_iff split: if_splits)

lemma try_start_rules: "rules (snd (try_start models m acc)) = rules (snd acc)"
  by (cases acc) (simp add: try_start_def Let_def)

lemma try_start_excl:
  assumes "ExclusiveModelRule \<in> set (rules (snd acc))"
      and "exclusive_running models (snd acc) \<longrightarrow> length (active_jobs (snd acc)) = 1"
  shows "exclusive_running models (snd (try_start models m acc)) \<longrightarrow>
         length (active_jobs (snd (try_start models m acc))) = 1"
proof (cases acc)
  case (Pair n s)
  show ?thesis
  proof (cases "queue_of (queues s) m \<noteq> [] \<and> ConcurrencyManager_can_run models (rules s) (hd (queue_of (queues s) m)) (active_jobs s)")
    case True
    then have ok: "ExclusiveModelRule_can_run models (hd (queue_of (queues s) m)) (active_jobs s)"
      using assms(1) Pair manager_exclusive by auto
    from exclusive_rule_admit[OF ok] True Pair show ?thesis
      by (auto simp: try_start_def Let_def exclusive_running_def)
  next
    case False
    then show ?thesis using assms Pair by (auto simp: try_start_def Let_def)
  qed
qed

lemma schedule_heads_rules: "rules (snd (schedule_heads models ms acc)) = rules (snd acc)"
  by (induction ms arbitrary: acc) (simp_all add: try_start_rules)

lemma schedule_heads_excl:
  "ExclusiveModelRule \<in> set (rules (snd acc)) \<Longrightarrow>
   exclusive_running models (snd acc) \<longrightarrow> length (active_jobs (snd acc)) = 1 \<Longrightarrow>
   exclusive_running models (snd (schedule_heads models ms acc)) \<longrightarrow>
         length (active_jobs (snd (schedule_heads models ms acc))) = 1"
proof (induction ms arbitrary: acc)
  case Nil
  then show ?case by simp
next
  case (Cons m ms)
  show ?case
    unfolding schedule_heads.simps
    by (rule Cons.IH) (use Cons.prems try_start_rules try_start_excl in auto)
qed

lemma finish_job_excl:
  assumes "exclusive_running models s \<longrightarrow> length (active_jobs s) = 1"
  shows "exclusive_running models (finish_job job s) \<longrightarrow> length (active_jobs (finish_job job s)) = 1"
proof (cases "job \<in> set (active_jobs s)")
  case False
  then show ?thesis using assms by (simp add: finish_job_def exclusive_running_def)
next
  case True
  show ?thesis
  proof
    assume ex: "exclusive_running models (finish_job job s)"
    then have "exclusive_running models s"
      using True set_remove1_subset[of job "active_jobs s"]
      by (auto simp: finish_job_def exclusive_running_def list_ex_iff)
    with assms have "length (active_jobs s) = 1" by simp
    with True have "active_jobs s = [job]" by (cases "active_jobs s") auto
    with ex show "length (active_jobs (finish_job job s)) = 1"
      by (simp add: finish_job_def exclusive_running_def)
  qed
qed

lemma sched_step_excl_inv:
  assumes "excl_inv models s" shows "excl_inv models (sched_step models dflt s ev)"
proof (cases ev)
  case (Enqueue job)
  then show ?thesis using assms
    by (simp add: excl_inv_def enqueue_job_def Let_def exclusive_running_def)
next
  case Pass
  show ?thesis
  proof (cases "candidate_models s = []")
    case True
    then show ?thesis using assms Pass by (simp add: schedule_pending_jobs_def)
  next
    case False
    obtain n s' where r: "schedule_heads models (pass_order models dflt s) (0, s) = (n, s')"
      by (cases "schedule_heads models (pass_order models dflt s) (0, s)")
    have "rules s' = rules s" using schedule_heads_rules[of models "pass_order models dflt s" "(0, s)"] r by simp
    moreover have "exclusive_running models s' \<longrightarrow> length (active_jobs s') = 1"
      using schedule_heads_excl[of "(0, s)" models "pass_order models dflt s"] r assms
      by (simp add: excl_inv_def)
    ultimately show ?thesis using assms Pass False r
      by (simp add: schedule_pending_jobs_def excl_inv_def)
  qed
next
  case (Finish job)
  then show ?thesis using assms finish_job_excl[of models s job]
    by (simp add: excl_inv_def) (simp add: finish_job_def)
qed

lemma run_events_excl_inv:
  "excl_inv models s \<Longrightarrow> excl_inv models (run_events models dflt evs s)"
  unfolding run_events_def
  by (induction evs arbitrary: s) (simp_all add: sched_step_excl_inv)

subsection \<open>The exclusive-model invariant\<close>

text \<open>
  Claim C1. In every scheduler state reached from the initial scheduler (default rule set)
  by enqueuing jobs, running scheduling passes and finishing jobs, with the model records
  fixed: if some active job's model has its \<^verbatim>\<open>exclusive\<close> flag set, the
  active set holds exactly one job.
\<close>

theorem exclusive_model_invariant:
  "exclusive_running models (run_events models dflt evs Scheduler_init) \<longrightarrow>
   length (active_jobs (run_events models dflt evs Scheduler_init)) = 1"
proof -
  have "excl_inv models Scheduler_init"
    by (simp add: excl_inv_def Scheduler_init_def default_rules_def exclusive_running_def)
  then show ?thesis using run_events_excl_inv[of models Scheduler_init dflt evs]
    by (simp add: excl_inv_def)
qed

text \<open>An exclusive job enqueued on the idle scheduler is admitted by the next pass and
  runs alone.\<close>

theorem exclusive_model_invariant_witness:
  "exclusive_running models_exclusive
     (run_events models_exclusive ModelScoreConfig_default [Enqueue (mk_job ''j1'' ''mX''), Pass] Scheduler_init)
   \<and> length (active_jobs (run_events models_exclusive ModelScoreConfig_default [Enqueue (mk_job ''j1'' ''mX''), Pass] Scheduler_init)) = 1"
proof -
  have h: "exclusive_running models_exclusive
     (run_events models_exclusive ModelScoreConfig_default [Enqueue (mk_job ''j1'' ''mX''), Pass] Scheduler_init)"
    by code_simp
  with exclusive_model_invariant[of models_exclusive ModelScoreConfig_default "[Enqueue (mk_job ''j1'' ''mX''), Pass]"]
  show ?thesis by blast
qed

subsection \<open>Floating-point addition\<close>

text \<open>On the non-negative numbers rounding is monotone, leaves a float as it is and
  yields a float; so a floating-point sum does not grow when a summand is left out.\<close>

lemma ilog2_lower: assumes "0 < x" shows "2 powi ilog2 x \<le> x"
proof (cases "1 \<le> x")
  case True
  let ?n = "nat \<lfloor>x\<rfloor>"
  have n: "0 < ?n" using True by simp
  from floorlog_bounds[OF n, of 2] have b: "2 ^ (floorlog 2 ?n - 1) \<le> ?n" "?n < 2 ^ floorlog 2 ?n"
    by simp_all
  have f: "1 \<le> floorlog 2 ?n" using b(2) n by (cases "floorlog 2 ?n") simp_all
  have "ilog2 x = int (floorlog 2 ?n - 1)" using True f by (simp add: ilog2_def)
  then have "2 powi ilog2 x = (2::rat) ^ (floorlog 2 ?n - 1)" by simp
  also have "\<dots> = of_nat (2 ^ (floorlog 2 ?n - 1))" by simp
  also have "\<dots> \<le> of_nat ?n" using b(1) by (simp only: of_nat_le_iff)
  also have "\<dots> = of_int \<lfloor>x\<rfloor>" using True by simp
  also have "\<dots> \<le> x" by simp
  finally show ?thesis .
next
  case False
  let ?c = "nat \<lceil>1 / x\<rceil>"
  have "1 / x \<le> of_int \<lceil>1 / x\<rceil>" by simp
  also have "\<dots> = of_nat ?c" using assms by (simp add: less_imp_le)
  also have "\<dots> \<le> of_nat (2 ^ ceillog2 ?c)" using le_two_power_ceillog2[of ?c] by (simp only: of_nat_le_iff)
  finally have "1 / x \<le> 2 ^ ceillog2 ?c" by simp
  then have "1 / 2 ^ ceillog2 ?c \<le> x" using assms
    by (simp add: field_simps)
  moreover have "2 powi ilog2 x = 1 / (2::rat) ^ ceillog2 ?c"
    using False by (simp add: ilog2_def power_int_minus_divide)
  ultimately show ?thesis by simp
qed

lemma ilog2_upper: assumes "0 < x" shows "x < 2 powi (ilog2 x + 1)"
proof (cases "1 \<le> x")
  case True
  let ?n = "nat \<lfloor>x\<rfloor>"
  have n: "0 < ?n" using True by simp
  from floorlog_bounds[OF n, of 2] have b: "?n < 2 ^ floorlog 2 ?n" by simp
  then have "\<lfloor>x\<rfloor> < 2 ^ floorlog 2 ?n" using True
    by (metis n nat_less_iff of_nat_less_iff of_nat_numeral of_nat_power zero_less_nat_eq order_less_imp_le)
  then have "x < of_int (2 ^ floorlog 2 ?n)" by (simp only: floor_less_iff)
  moreover have "ilog2 x + 1 = int (floorlog 2 ?n)" using True by (simp add: ilog2_def)
  ultimately show ?thesis by simp
next
  case False
  let ?c = "nat \<lceil>1 / x\<rceil>"
  let ?g = "ceillog2 ?c"
  have gt1: "1 < 1 / x" using False assms by (simp add: field_simps)
  then have c2: "2 \<le> \<lceil>1 / x\<rceil>" by linarith
  then have cpos: "0 < ?c" using assms by simp
  have "2 \<le> ?c" using c2 by linarith
  also have "\<dots> \<le> 2 ^ ?g" by (rule le_two_power_ceillog2)
  finally have g1: "1 \<le> ?g" by (cases ?g) simp_all
  from two_power_ceillog2_gt[OF cpos] have "2 ^ ?g < 2 * ?c" .
  then have "2 * 2 ^ (?g - 1) < 2 * ?c" using g1 by (cases ?g) simp_all
  then have "2 ^ (?g - 1) < ?c" by simp
  then have "int (2 ^ (?g - 1)) < \<lceil>1 / x\<rceil>" using cpos by linarith
  then have "of_int (int (2 ^ (?g - 1))) < 1 / x" by (simp only: less_ceiling_iff)
  then have "(2::rat) ^ (?g - 1) < 1 / x" by simp
  then have "x < 1 / 2 ^ (?g - 1)" using assms by (simp add: field_simps)
  moreover have "ilog2 x + 1 = - int (?g - 1)" using False g1 by (simp add: ilog2_def)
  ultimately show ?thesis by (simp add: power_int_minus_divide)
qed




lemma round_half_even_of_int [simp]: "round_half_even (of_int k) = k"
  by (simp add: round_half_even_def)

lemma round_half_even_floor: "\<lfloor>x\<rfloor> \<le> round_half_even x" "round_half_even x \<le> \<lfloor>x\<rfloor> + 1"
  by (simp_all add: round_half_even_def Let_def)

lemma round_half_even_mono: assumes "x \<le> y" shows "round_half_even x \<le> round_half_even y"
proof (cases "\<lfloor>x\<rfloor> = \<lfloor>y\<rfloor>")
  case True
  then show ?thesis using assms by (auto simp: round_half_even_def Let_def)
next
  case False
  then have "\<lfloor>x\<rfloor> + 1 \<le> \<lfloor>y\<rfloor>" using floor_mono[OF assms] by simp
  then show ?thesis
    using round_half_even_floor(2)[of x] round_half_even_floor(1)[of y] by linarith
qed

lemma scaled_bounds:
  assumes "0 < x"
  shows "2 ^ 52 \<le> x / 2 powi (ilog2 x - 52)" and "x / 2 powi (ilog2 x - 52) < 2 ^ 53"
proof -
  have u: "(2::rat) powi (ilog2 x - 52) = 2 powi ilog2 x / 2 ^ 52"
    by (simp add: power_int_diff)
  have p: "(0::rat) < 2 powi ilog2 x" by (simp add: zero_less_power_int)
  have "2 ^ 52 * (2 powi ilog2 x / 2 ^ 52) \<le> x"
    using ilog2_lower[OF assms] by simp
  then show "2 ^ 52 \<le> x / 2 powi (ilog2 x - 52)"
    using p unfolding u by (simp add: field_simps)
  have "x < 2 * 2 powi ilog2 x"
    using ilog2_upper[OF assms] by (simp add: power_int_add)
  then show "x / 2 powi (ilog2 x - 52) < 2 ^ 53"
    using p unfolding u by (simp add: field_simps)
qed

lemma mantissa_bounds:
  assumes "0 < x"
  shows "2 ^ 52 \<le> round_half_even (x / 2 powi (ilog2 x - 52))"
    and "round_half_even (x / 2 powi (ilog2 x - 52)) \<le> 2 ^ 53"
proof -
  have a: "of_int (2 ^ 52) \<le> x / 2 powi (ilog2 x - 52)"
    using scaled_bounds(1)[OF assms] by simp
  from round_half_even_mono[OF a]
  show "2 ^ 52 \<le> round_half_even (x / 2 powi (ilog2 x - 52))"
    by (simp only: round_half_even_of_int)
  have b: "x / 2 powi (ilog2 x - 52) \<le> of_int (2 ^ 53)"
    using scaled_bounds(2)[OF assms] by simp
  from round_half_even_mono[OF b]
  show "round_half_even (x / 2 powi (ilog2 x - 52)) \<le> 2 ^ 53"
    by (simp only: round_half_even_of_int)
qed

lemma float_round_pos:
  "0 < x \<Longrightarrow> float_round x = of_int (round_half_even (x / 2 powi (ilog2 x - 52))) * 2 powi (ilog2 x - 52)"
  by (simp add: float_round_def Let_def)

lemma float_round_bounds:
  assumes "0 < x"
  shows "2 powi ilog2 x \<le> float_round x" and "float_round x \<le> 2 powi (ilog2 x + 1)"
proof -
  let ?u = "(2::rat) powi (ilog2 x - 52)"
  let ?k = "round_half_even (x / ?u)"
  have u: "?u = 2 powi ilog2 x / 2 ^ 52" by (simp add: power_int_diff)
  have p: "(0::rat) < 2 powi ilog2 x" by (simp add: zero_less_power_int)
  have k1: "(2::rat) ^ 52 \<le> of_int ?k"
    using mantissa_bounds(1)[OF assms] by (metis of_int_le_iff of_int_numeral of_int_power)
  have k2: "of_int ?k \<le> (2::rat) ^ 53"
    using mantissa_bounds(2)[OF assms] by (metis of_int_le_iff of_int_numeral of_int_power)
  have "2 ^ 52 * ?u \<le> of_int ?k * ?u"
    using k1 p unfolding u by (intro mult_right_mono) simp_all
  then show "2 powi ilog2 x \<le> float_round x"
    unfolding float_round_pos[OF assms] by (simp add: u)
  have "of_int ?k * ?u \<le> 2 ^ 53 * ?u"
    using k2 p unfolding u by (intro mult_right_mono) simp_all
  then show "float_round x \<le> 2 powi (ilog2 x + 1)"
    unfolding float_round_pos[OF assms] by (simp add: u power_int_add)
qed

lemma float_round_nonneg: assumes "0 \<le> x" shows "0 \<le> float_round x"
proof (cases "x = 0")
  case True
  then show ?thesis by (simp add: float_round_def)
next
  case False
  then have x: "0 < x" using assms by simp
  have "(0::rat) < 2 powi ilog2 x" by (simp add: zero_less_power_int)
  then show ?thesis using float_round_bounds(1)[OF x] by linarith
qed




lemma float_add_nonneg: "0 \<le> a \<Longrightarrow> 0 \<le> v \<Longrightarrow> 0 \<le> float_add a v"
  by (simp add: float_add_def float_round_nonneg)




lemma float_fold_nonneg:
  assumes "\<And>x. 0 \<le> g x"
  shows "0 \<le> a \<Longrightarrow> 0 \<le> foldl (\<lambda>acc j. float_add acc (g j)) a js"
  by (induction js arbitrary: a) (simp_all add: float_add_nonneg assms)



text \<open>The addition agrees with Python on \<^verbatim>\<open>0.1 + 0.2\<close> and on
  \<^verbatim>\<open>3.3 + 36.6 + 60.1\<close>, each float written as the rational it denotes.\<close>

lemma float_add_examples:
  "float_add (3602879701896397 / 36028797018963968) (3602879701896397 / 18014398509481984) =
     1351079888211149 / 4503599627370496"
  "float_add (float_add (3715469692580659 / 1125899906842624) (5150992073805005 / 140737488355328))
     (8458323050155213 / 140737488355328) = 100"
  by code_simp+

subsection \<open>Resource sums\<close>












subsection \<open>The resource-sum invariant\<close>




lemma queue_of_update:
  "queue_of (AList.update m q qs) m' = (if m' = m then q else queue_of qs m')"
  by (simp add: queue_of_def update_conv')

lemma keys_update_present:
  "m \<in> fst ` set qs \<Longrightarrow> map fst (AList.update m q qs) = map fst qs"
  by (simp add: update_keys)

lemma queue_nonempty_key: "queue_of qs m \<noteq> [] \<Longrightarrow> m \<in> fst ` set qs"
  by (auto simp: queue_of_def split: option.splits dest: map_of_SomeD intro: rev_image_eqI)

lemma candidate_models_set:
  assumes "distinct (map fst qs)"
  shows "set (map fst (filter (\<lambda>(m, q). q \<noteq> []) qs)) = {m. queue_of qs m \<noteq> []}"
proof (rule set_eqI)
  fix m
  show "m \<in> set (map fst (filter (\<lambda>(m, q). q \<noteq> []) qs)) \<longleftrightarrow> m \<in> {m. queue_of qs m \<noteq> []}"
  proof
    assume "m \<in> set (map fst (filter (\<lambda>(m, q). q \<noteq> []) qs))"
    then obtain q where q: "(m, q) \<in> set qs" "q \<noteq> []" by auto
    then have "map_of qs m = Some q" using assms by simp
    with q(2) show "m \<in> {m. queue_of qs m \<noteq> []}" by (simp add: queue_of_def)
  next
    assume "m \<in> {m. queue_of qs m \<noteq> []}"
    then obtain q where q: "map_of qs m = Some q" "q \<noteq> []"
      by (auto simp: queue_of_def split: option.splits)
    then have "(m, q) \<in> set qs" by (simp add: map_of_SomeD)
    with q(2) have "(m, q) \<in> set (filter (\<lambda>(m, q). q \<noteq> []) qs)" by simp
    then have "fst (m, q) \<in> fst ` set (filter (\<lambda>(m, q). q \<noteq> []) qs)" by (rule imageI)
    then show "m \<in> set (map fst (filter (\<lambda>(m, q). q \<noteq> []) qs))" by simp
  qed
qed

lemma pass_order_set:
  "distinct (map fst (queues s)) \<Longrightarrow> set (pass_order models dflt s) = {m. queue_of (queues s) m \<noteq> []}"
  using candidate_models_set[of "queues s"] by (simp add: pass_order_def candidate_models_def)

lemma pass_order_distinct:
  "distinct (map fst (queues s)) \<Longrightarrow> distinct (pass_order models dflt s)"
  by (simp add: pass_order_def candidate_models_def distinct_map_filter)

lemma pass_order_sorted:
  "sorted (map (sort_key_fn models dflt (active_jobs s)) (pass_order models dflt s))"
  by (simp add: pass_order_def)


lemma try_start_eq:
  assumes "queue_of (queues s) m \<noteq> []"
  shows "try_start models m (n, s) =
     (if ConcurrencyManager_can_run models (rules s) (hd (queue_of (queues s) m)) (active_jobs s)
      then (n + 1, s\<lparr>queues := AList.update m (tl (queue_of (queues s) m)) (queues s),
                      active_jobs := active_jobs s @ [hd (queue_of (queues s) m)],
                      spawned := spawned s @ [hd (queue_of (queues s) m)]\<rparr>)
      else (n, s))"
  using assms by (simp add: try_start_def Let_def)

lemma admitted_of_Cons:
  "admitted_of (h # hs) (d # ds) = (if d then h # admitted_of hs ds else admitted_of hs ds)"
  by (simp add: admitted_of_def)

lemma admitted_of_Nil [simp]: "admitted_of [] ds = []" "admitted_of hs [] = []"
  by (simp_all add: admitted_of_def)

lemma schedule_heads_eq:
  assumes "distinct ms" and "\<forall>m\<in>set ms. queue_of (queues s) m \<noteq> []"
  shows "schedule_heads models ms (n, s) =
     (n + length (admitted_of (map (\<lambda>m. hd (queue_of (queues s) m)) ms)
                    (admit_decisions models (rules s) (active_jobs s)
                       (map (\<lambda>m. hd (queue_of (queues s) m)) ms))),
      s\<lparr>queues := pop_heads (zip ms (admit_decisions models (rules s) (active_jobs s)
                       (map (\<lambda>m. hd (queue_of (queues s) m)) ms))) (queues s),
        active_jobs := active_jobs s @ admitted_of (map (\<lambda>m. hd (queue_of (queues s) m)) ms)
                    (admit_decisions models (rules s) (active_jobs s)
                       (map (\<lambda>m. hd (queue_of (queues s) m)) ms)),
        spawned := spawned s @ admitted_of (map (\<lambda>m. hd (queue_of (queues s) m)) ms)
                    (admit_decisions models (rules s) (active_jobs s)
                       (map (\<lambda>m. hd (queue_of (queues s) m)) ms))\<rparr>)"
  using assms
proof (induction ms arbitrary: n s)
  case Nil
  then show ?case by simp
next
  case (Cons m ms)
  let ?h = "hd (queue_of (queues s) m)"
  let ?d = "ConcurrencyManager_can_run models (rules s) ?h (active_jobs s)"
  have ne: "queue_of (queues s) m \<noteq> []" using Cons.prems(2) by simp
  have dist: "distinct ms" and notin: "m \<notin> set ms" using Cons.prems(1) by simp_all
  show ?case
  proof (cases ?d)
    case True
    let ?s1 = "s\<lparr>queues := AList.update m (tl (queue_of (queues s) m)) (queues s),
                  active_jobs := active_jobs s @ [?h], spawned := spawned s @ [?h]\<rparr>"
    have step: "try_start models m (n, s) = (n + 1, ?s1)"
      using True by (simp add: try_start_eq[OF ne])
    have same: "\<And>m'. m' \<in> set ms \<Longrightarrow> queue_of (queues ?s1) m' = queue_of (queues s) m'"
      using notin by (auto simp: queue_of_update)
    then have heads: "map (\<lambda>m. hd (queue_of (queues ?s1) m)) ms = map (\<lambda>m. hd (queue_of (queues s) m)) ms"
      by simp
    have ne1: "\<forall>m\<in>set ms. queue_of (queues ?s1) m \<noteq> []"
      using same Cons.prems(2) by simp
    show ?thesis
      unfolding schedule_heads.simps step Cons.IH[OF dist ne1] heads
      using True by (simp add: Let_def admitted_of_Cons)
  next
    case False
    have step: "try_start models m (n, s) = (n, s)"
      using False by (simp add: try_start_eq[OF ne])
    have ne1: "\<forall>m\<in>set ms. queue_of (queues s) m \<noteq> []"
      using Cons.prems(2) by simp
    show ?thesis
      unfolding schedule_heads.simps step Cons.IH[OF dist ne1]
      using False by (simp add: Let_def admitted_of_Cons)
  qed
qed

lemma admit_decisions_length [simp]:
  "length (admit_decisions models rs act hs) = length hs"
  by (induction hs arbitrary: act) (simp_all add: Let_def)

lemma admit_decisions_nth:
  "k < length hs \<Longrightarrow>
   admit_decisions models rs act hs ! k =
     ConcurrencyManager_can_run models rs (hs ! k)
       (act @ admitted_of (take k hs) (take k (admit_decisions models rs act hs)))"
proof (induction hs arbitrary: act k)
  case Nil
  then show ?case by simp
next
  case (Cons h hs)
  show ?case
  proof (cases k)
    case 0
    then show ?thesis by (simp add: Let_def)
  next
    case (Suc k')
    then have "k' < length hs" using Cons.prems by simp
    from Cons.IH[OF this] Suc show ?thesis
      by (simp add: Let_def admitted_of_Cons)
  qed
qed

lemma pop_heads_queue:
  "distinct ms \<Longrightarrow> length ds = length ms \<Longrightarrow>
   queue_of (pop_heads (zip ms ds) qs) m =
     (if (m, True) \<in> set (zip ms ds) then tl (queue_of qs m) else queue_of qs m)"
proof (induction ms arbitrary: ds qs)
  case Nil
  then show ?case by simp
next
  case (Cons m0 ms)
  then obtain d ds' where ds: "ds = d # ds'" by (cases ds) auto
  have len: "length ds' = length ms" using Cons.prems(2) ds by simp
  have dist: "distinct ms" and notin: "m0 \<notin> set ms" using Cons.prems(1) by simp_all
  have nz: "\<And>b. (m0, b) \<notin> set (zip ms ds')" using notin by (auto dest: set_zip_leftD)
  show ?case
    unfolding ds using Cons.IH[OF dist len] nz
    by (auto simp: queue_of_update)
qed

lemma pop_heads_keys:
  "\<forall>m\<in>set ms. m \<in> fst ` set qs \<Longrightarrow> map fst (pop_heads (zip ms ds) qs) = map fst qs"
proof (induction ms arbitrary: ds qs)
  case Nil
  then show ?case by simp
next
  case (Cons m0 ms)
  show ?case
  proof (cases ds)
    case Nil
    then show ?thesis by simp
  next
    case (Cons d ds')
    have k: "map fst (AList.update m0 (tl (queue_of qs m0)) qs) = map fst qs"
      using Cons.prems by (simp add: keys_update_present)
    then have "\<forall>m\<in>set ms. m \<in> fst ` set (AList.update m0 (tl (queue_of qs m0)) qs)"
      using Cons.prems by (metis list.set_intros(2) set_map)
    with Cons.IH[of "AList.update m0 (tl (queue_of qs m0)) qs" ds'] Cons.IH[of qs ds'] Cons.prems k Cons
    show ?thesis by simp
  qed
qed


text \<open>The keys of the queue dict stay distinct in every scheduler state reached from the
  initial one.\<close>

lemma enqueue_job_keys:
  "distinct (map fst (queues s)) \<Longrightarrow> distinct (map fst (queues (enqueue_job job s)))"
  by (simp add: enqueue_job_def Let_def distinct_update)

lemma schedule_pending_jobs_keys:
  assumes "distinct (map fst (queues s))"
      and "schedule_pending_jobs (Inr models) dflt s = Inr (n, s')"
  shows "map fst (queues s') = map fst (queues s)"
proof (cases "candidate_models s = []")
  case True
  then show ?thesis using assms(2) by (simp add: schedule_pending_jobs_def)
next
  case False
  have ne: "\<forall>m\<in>set (pass_order models dflt s). queue_of (queues s) m \<noteq> []"
    using pass_order_set[OF assms(1)] by simp
  then have keys: "\<forall>m\<in>set (pass_order models dflt s). m \<in> fst ` set (queues s)"
    using queue_nonempty_key by blast
  have "schedule_heads models (pass_order models dflt s) (0, s) = (n, s')"
    using assms(2) False by (simp add: schedule_pending_jobs_def)
  then show ?thesis
    using schedule_heads_eq[OF pass_order_distinct[OF assms(1)] ne, of models 0]
      pop_heads_keys[OF keys]
    by auto
qed

lemma sched_step_keys:
  assumes "distinct (map fst (queues s))"
  shows "distinct (map fst (queues (sched_step models dflt s ev)))"
proof (cases ev)
  case (Enqueue job)
  then show ?thesis using assms by (simp add: enqueue_job_keys)
next
  case Pass
  show ?thesis
  proof (cases "schedule_pending_jobs (Inr models) dflt s")
    case (Inl e)
    then show ?thesis using assms Pass by simp
  next
    case (Inr r)
    obtain n s' where "r = (n, s')" by (cases r)
    then show ?thesis
      using schedule_pending_jobs_keys[OF assms, of models dflt n s'] Inr Pass assms by simp
  qed
next
  case (Finish job)
  then show ?thesis using assms by (simp add: finish_job_def)
qed

lemma run_events_keys:
  "distinct (map fst (queues (run_events models dflt evs Scheduler_init)))"
proof -
  have "distinct (map fst (queues s)) \<Longrightarrow>
        distinct (map fst (queues (foldl (sched_step models dflt) s evs)))" for s
    by (induction evs arbitrary: s) (simp_all add: sched_step_keys)
  then show ?thesis by (simp add: run_events_def Scheduler_init_def)
qed

subsection \<open>The scheduling pass\<close>

text \<open>
  Claim C4, with the sort key as the code computes it. A pass looks at exactly the models
  whose queue is not empty, each once, in an order sorted by the key (0 if the model id
  is the resolved model of some active job, else 1; then the negated base priority). There
  is a list \<open>ds\<close> of admission decisions, one per candidate: the \<open>k\<close>-th says
  whether every rule lets the head of the \<open>k\<close>-th queue run beside the active jobs
  as extended by the heads admitted earlier in the pass. The admitted heads are appended
  to the active list and to the spawned tasks in that order, their number is returned,
  every queue with an admitted head loses exactly that head and every other queue is left
  as it was, so no job behind a head is ever looked at.
\<close>

theorem scheduling_pass:
  assumes "distinct (map fst (queues s))"
  shows "set (pass_order models dflt s) = {m. queue_of (queues s) m \<noteq> []} \<and>
         distinct (pass_order models dflt s) \<and>
         sorted (map (sort_key_fn models dflt (active_jobs s)) (pass_order models dflt s)) \<and>
         (\<forall>m. sort_key_fn models dflt (active_jobs s) m =
               (if m \<in> resolved_model_id ` set (active_jobs s) then 0 else 1,
                - base_priority (case map_of models m of Some c \<Rightarrow> c | None \<Rightarrow> dflt))) \<and>
         (\<exists>ds n s'.
            schedule_pending_jobs (Inr models) dflt s = Inr (n, s') \<and>
            length ds = length (pass_order models dflt s) \<and>
            (\<forall>k < length ds.
               ds ! k = list_all (\<lambda>r. rule_can_run models r (pass_heads models dflt s ! k)
                          (active_jobs s @ admitted_of (take k (pass_heads models dflt s)) (take k ds)))
                        (rules s)) \<and>
            n = length (admitted_of (pass_heads models dflt s) ds) \<and>
            active_jobs s' = active_jobs s @ admitted_of (pass_heads models dflt s) ds \<and>
            spawned s' = spawned s @ admitted_of (pass_heads models dflt s) ds \<and>
            map fst (queues s') = map fst (queues s) \<and>
            (\<forall>m. queue_of (queues s') m =
                   (if (m, True) \<in> set (zip (pass_order models dflt s) ds)
                    then tl (queue_of (queues s) m) else queue_of (queues s) m)) \<and>
            rules s' = rules s)"
proof -
  let ?order = "pass_order models dflt s"
  let ?hs = "pass_heads models dflt s"
  let ?ds = "admit_decisions models (rules s) (active_jobs s) ?hs"
  let ?adm = "admitted_of ?hs ?ds"
  let ?s' = "s\<lparr>queues := pop_heads (zip ?order ?ds) (queues s),
                active_jobs := active_jobs s @ ?adm, spawned := spawned s @ ?adm\<rparr>"
  have oset: "set ?order = {m. queue_of (queues s) m \<noteq> []}"
    by (rule pass_order_set[OF assms])
  have odist: "distinct ?order" by (rule pass_order_distinct[OF assms])
  have ne: "\<forall>m\<in>set ?order. queue_of (queues s) m \<noteq> []" using oset by simp
  have keys: "\<forall>m\<in>set ?order. m \<in> fst ` set (queues s)"
    using ne queue_nonempty_key by blast
  have heads: "schedule_heads models ?order (0, s) = (length ?adm, ?s')"
    using schedule_heads_eq[OF odist ne, of models 0] by (simp add: pass_heads_def)
  have run: "schedule_pending_jobs (Inr models) dflt s = Inr (length ?adm, ?s')"
  proof (cases "candidate_models s = []")
    case True
    then have "?order = []" by (simp add: pass_order_def)
    then show ?thesis using True by (simp add: schedule_pending_jobs_def pass_heads_def)
  next
    case False
    then show ?thesis using heads by (simp add: schedule_pending_jobs_def)
  qed
  have len: "length ?ds = length ?order" by (simp add: pass_heads_def)
  have dec: "\<forall>k < length ?ds.
               ?ds ! k = list_all (\<lambda>r. rule_can_run models r (?hs ! k)
                          (active_jobs s @ admitted_of (take k ?hs) (take k ?ds))) (rules s)"
    using admit_decisions_nth[of _ ?hs models "rules s" "active_jobs s"]
    by (simp add: manager_can_run_iff)
  have qk: "map fst (queues ?s') = map fst (queues s)"
    using pop_heads_keys[OF keys] by simp
  have qq: "\<forall>m. queue_of (queues ?s') m =
                   (if (m, True) \<in> set (zip ?order ?ds)
                    then tl (queue_of (queues s) m) else queue_of (queues s) m)"
    using pop_heads_queue[OF odist len] by simp
  have key: "\<forall>m. sort_key_fn models dflt (active_jobs s) m =
               (if m \<in> resolved_model_id ` set (active_jobs s) then 0 else 1,
                - base_priority (case map_of models m of Some c \<Rightarrow> c | None \<Rightarrow> dflt))"
    by (simp add: sort_key_fn_def Let_def)
  have ex: "\<exists>ds n s'.
            schedule_pending_jobs (Inr models) dflt s = Inr (n, s') \<and>
            length ds = length ?order \<and>
            (\<forall>k < length ds.
               ds ! k = list_all (\<lambda>r. rule_can_run models r (?hs ! k)
                          (active_jobs s @ admitted_of (take k ?hs) (take k ds))) (rules s)) \<and>
            n = length (admitted_of ?hs ds) \<and>
            active_jobs s' = active_jobs s @ admitted_of ?hs ds \<and>
            spawned s' = spawned s @ admitted_of ?hs ds \<and>
            map fst (queues s') = map fst (queues s) \<and>
            (\<forall>m. queue_of (queues s') m =
                   (if (m, True) \<in> set (zip ?order ds)
                    then tl (queue_of (queues s) m) else queue_of (queues s) m)) \<and>
            rules s' = rules s"
    apply (rule exI[of _ ?ds], rule exI[of _ "length ?adm"], rule exI[of _ ?s'])
    using run len dec qk qq by simp
  show ?thesis
    using oset odist pass_order_sorted[of models dflt s] key ex by blast
qed


text \<open>With a job for \<open>m1\<close> running and jobs for \<open>m2\<close> and \<open>m3\<close>
  queued, the pass takes \<open>m3\<close> (priority 5) before \<open>m2\<close>.\<close>

theorem scheduling_pass_witness:
  "distinct (map fst (queues sched_shared)) \<and>
   pass_order models_prio ModelScoreConfig_default sched_shared = [''m3'', ''m2''] \<and>
   pass_heads models_prio ModelScoreConfig_default sched_shared =
     [mk_job ''j3'' ''m3'', mk_job ''j2'' ''m2''] \<and>
   sorted (map (sort_key_fn models_prio ModelScoreConfig_default (active_jobs sched_shared))
             (pass_order models_prio ModelScoreConfig_default sched_shared)) \<and>
   (\<exists>ds n s'.
      schedule_pending_jobs (Inr models_prio) ModelScoreConfig_default sched_shared = Inr (n, s') \<and>
      length ds = length (pass_order models_prio ModelScoreConfig_default sched_shared) \<and>
      n = length (admitted_of (pass_heads models_prio ModelScoreConfig_default sched_shared) ds) \<and>
      active_jobs s' =
        active_jobs sched_shared @
        admitted_of (pass_heads models_prio ModelScoreConfig_default sched_shared) ds)"
proof -
  have h: "distinct (map fst (queues sched_shared))"
    by code_simp
  have o: "pass_order models_prio ModelScoreConfig_default sched_shared = [''m3'', ''m2'']"
    by code_simp
  have p: "pass_heads models_prio ModelScoreConfig_default sched_shared =
     [mk_job ''j3'' ''m3'', mk_job ''j2'' ''m2'']"
    by code_simp
  from scheduling_pass[OF h, of models_prio ModelScoreConfig_default]
  have "sorted (map (sort_key_fn models_prio ModelScoreConfig_default (active_jobs sched_shared))
             (pass_order models_prio ModelScoreConfig_default sched_shared)) \<and>
   (\<exists>ds n s'.
      schedule_pending_jobs (Inr models_prio) ModelScoreConfig_default sched_shared = Inr (n, s') \<and>
      length ds = length (pass_order models_prio ModelScoreConfig_default sched_shared) \<and>
      n = length (admitted_of (pass_heads models_prio ModelScoreConfig_default sched_shared) ds) \<and>
      active_jobs s' =
        active_jobs sched_shared @
        admitted_of (pass_heads models_prio ModelScoreConfig_default sched_shared) ds)"
    by blast
  then show ?thesis using h o p by blast
qed

text \<open>
  The claim as worded makes a candidate active when its provider is already executing a
  job. In the sample state \<open>m2\<close> shares provider \<open>pA\<close> with the running
  \<open>m1\<close>, so by that key \<open>m2\<close> would come first; the code compares model ids
  and takes \<open>m3\<close> first, an order that is not sorted by the provider-based key.
\<close>

theorem scheduling_pass_provider_key_counterexample:
  "active_jobs sched_shared = [mk_job ''j1'' ''m1''] \<and>
   map_of model_map_shared ''m1'' = map_of model_map_shared ''m2'' \<and>
   pass_order models_prio ModelScoreConfig_default sched_shared = [''m3'', ''m2''] \<and>
   \<not> sorted (map (sort_key_spec model_map_shared models_prio ModelScoreConfig_default
                    (active_jobs sched_shared))
                (pass_order models_prio ModelScoreConfig_default sched_shared))"
  by code_simp

lemma schedule_pending_jobs_loads:
  "schedule_pending_jobs (Inr models) dflt s \<noteq> Inl e"
  by (simp add: schedule_pending_jobs_def)

lemma loop_no_raise_aux:
  "aw = WrapsCoroutines \<Longrightarrow> list_all loads ticks \<Longrightarrow>
     run_process_loop aw dflt ticks s \<noteq> Died e s'"
proof (induction aw dflt ticks s rule: run_process_loop.induct)
  case (1 aw dflt s)
  then show ?case by simp
next
  case (2 aw dflt t ts s)
  from "2.prems" have aw: "aw = WrapsCoroutines" and rest: "list_all loads ts" and "loads t"
    by simp_all
  then obtain models where m: "tick_models t = Inr models"
    by (auto simp: loads_def split: sum.splits)
  show ?case
  proof (cases "shutdown_event s")
    case True
    then show ?thesis by simp
  next
    case False
    let ?s1 = "s\<lparr>new_job_event := False, job_complete_event := False\<rparr>"
    obtain n s2 where r: "schedule_pending_jobs (Inr models) dflt ?s1 = Inr (n, s2)"
      using schedule_pending_jobs_loads[of models dflt ?s1]
      by (cases "schedule_pending_jobs (Inr models) dflt ?s1") auto
    show ?thesis
      using False m r rest aw "2.IH"[OF False refl, of "(n, s2)" n s2]
      by (auto simp: Let_def)
  qed
qed

text \<open>The pass and the second wait are the two places where the model raises: with
  readable records and an interpreter that wraps coroutines, no run of the model ends in
  \<open>Died\<close>.\<close>

lemma loop_no_raise:
  "list_all loads ticks \<Longrightarrow> run_process_loop WrapsCoroutines dflt ticks s \<noteq> Died e s'"
  by (rule loop_no_raise_aux[OF refl])



lemma loop_wait_forbidden:
  assumes "\<not> shutdown_event s" "candidate_models s = []" "active_jobs s \<noteq> []"
  shows "run_process_loop ForbidsCoroutines dflt (t # ts) s =
           Died coroutines_forbidden (s\<lparr>new_job_event := False, job_complete_event := False\<rparr>)"
  using assms by (simp add: schedule_pending_jobs_def candidate_models_def)


subsection \<open>Exceptions in the dispatch loop\<close>




section \<open>Properties of the provider adapters\<close>

lemma openai_declared_no_io:
  "api_models cfg = Some ms \<Longrightarrow> declared_models ms = Some ds \<Longrightarrow> ds \<noteq> [] \<Longrightarrow>
   OpenAICompatProvider_list_models cfg http_get = (Inr ds, [])"
  by (cases ds) (simp_all add: OpenAICompatProvider_list_models_def)

lemma http_list_models_non_success:
  "http_get path = HttpResponse status_code body \<Longrightarrow> status_code \<noteq> 200 \<Longrightarrow>
   http_list_models path http_get = (Inr [], [path])"
  by (simp add: http_list_models_def)

lemma ollama_always_requests:
  "config_models_path cfg = Inr path \<Longrightarrow>
   snd (OllamaProvider_list_models cfg http_get) = [path]"
  by (simp add: OllamaProvider_list_models_def http_list_models_def
      split: http_result.splits option.splits)

lemma openai_empty_declared_requests:
  "api_models cfg = Some ms \<Longrightarrow> declared_models ms = Some [] \<Longrightarrow> models_path ms = Some path \<Longrightarrow>
   snd (OpenAICompatProvider_list_models cfg http_get) = [path]"
  by (simp add: OpenAICompatProvider_list_models_def config_models_path_def http_list_models_def
      split: http_result.splits option.splits)

text \<open>
  Claim C9 says that every adapter variant returns a declared model list without network
  I/O. The OpenAI-compatible adapter does; the Ollama adapter never reads
  \<^verbatim>\<open>declared_models\<close>: with the list \<open>[m1, m2]\<close> declared it requests the
  listing path and returns what the backend answers (nothing on a non-success status).
\<close>

theorem ollama_list_models_ignores_declared:
  "api_models cfg_declared =
     Some \<lparr>models_path = Some ''/api/tags'', declared_models = Some [''m1'', ''m2'']\<rparr> \<and>
   list_models \<lparr>kind = OllamaProvider, config = cfg_declared\<rparr> http_one_model =
     (Inr [''m9''], [''/api/tags'']) \<and>
   list_models \<lparr>kind = OllamaProvider, config = cfg_declared\<rparr> http_unavailable =
     (Inr [], [''/api/tags'']) \<and>
   list_models \<lparr>kind = OpenAICompatProvider, config = cfg_declared\<rparr> http_one_model =
     (Inr [''m1'', ''m2''], [])"
  by (simp add: cfg_declared_def http_one_model_def http_unavailable_def
      OllamaProvider_list_models_def OpenAICompatProvider_list_models_def
      config_models_path_def http_list_models_def)

section \<open>Properties of the registry\<close>







lemma load_providers_timestamp:
  "last_refresh_timestamp (load_providers_from_disk disk reg) = last_refresh_timestamp reg"
proof (induction disk arbitrary: reg)
  case Nil
  then show ?case by simp
next
  case (Cons cfg disk)
  show ?case by (simp add: Cons.IH register_provider_def split: option.splits)
qed

lemma refresh_eq:
  assumes "probe_providers world
             (providers (load_providers_from_disk disk (reg\<lparr>providers := []\<rparr>))) [] =
           (seen, raised, final)"
  shows "fst (refresh now disk world reg) = seen"
    and "model_map (snd (refresh now disk world reg)) = final"
    and "last_refresh_timestamp (snd (refresh now disk world reg)) =
           (if raised = None then now else last_refresh_timestamp reg)"
    and "providers (snd (refresh now disk world reg)) =
           providers (load_providers_from_disk disk (reg\<lparr>providers := []\<rparr>))"
    and "refresh_error disk world reg = raised"
  using assms
  by (cases raised;
      simp add: refresh_def refresh_error_def detect_and_register_models_def Let_def
        load_providers_timestamp)+




text \<open>A reader may see the map that the refresh leaves behind before the refresh has
  ended: with \<open>pB\<close> not healthy, the map seen while \<open>pB\<close> is probed is the final
  one.\<close>

lemma refresh_final_map_seen_early:
  "fst (refresh 101 disk_two world_pB_down registry_two) = [[], [(''m1'', ''pA'')]] \<and>
   model_map (snd (refresh 101 disk_two world_pB_down registry_two)) = [(''m1'', ''pA'')] \<and>
   refresh_error disk_two world_pB_down registry_two = None"
  by code_simp

section \<open>Properties of job execution\<close>

text \<open>Every failure of an adapter's \<^verbatim>\<open>chat_completion\<close> carries a code of the
  closed set, and so does, as the controller reads it, every errored job for which a
  provider was found.\<close>

lemma chat_completion_codes:
  "chat_completion provider reply = Inl e \<Longrightarrow>
   \<exists>c. exn_normalized_code e = Some c \<and> c \<in> set normalized_codes"
  by (auto simp: chat_completion_def GatewayError_init_def ProviderUnreachableError_def
      ProviderTimeoutError_def normalized_codes_def split: chat_reply.splits sum.splits if_splits)

lemma execute_job_codes:
  assumes "get_provider_for_model reg (resolved_model_id job) = Some provider"
      and "\<And>e. start_outcome (backends (provider_id_str provider)) = Inl e \<Longrightarrow>
               exn_normalized_code e = None"
      and "normalized_error job = None"
      and "status (execute_job reg backends job) = ''error''"
  shows "norm_error_of (execute_job reg backends job) \<in> set normalized_codes"
proof -
  let ?b = "backends (provider_id_str provider)"
  let ?j1 = "job\<lparr>status := ''running'', provider_id := cfg_provider_id (config provider)\<rparr>"
  show ?thesis
  proof (cases "if \<not> health_check_ok ?b then start_outcome ?b else Inr True")
    case (Inl e)
    then have "start_outcome ?b = Inl e" by (auto split: if_splits)
    then have "exn_normalized_code e = None" by (rule assms(2))
    then show ?thesis using assms(1,3) Inl
      by (simp add: execute_job_def Let_def job_failed_def norm_error_of_def normalized_codes_def)
  next
    case (Inr ok)
    show ?thesis
    proof (cases "chat_completion provider (chat ?b)")
      case (Inl e)
      from chat_completion_codes[OF this] obtain c where
        "exn_normalized_code e = Some c" "c \<in> set normalized_codes" by blast
      then show ?thesis using assms(1) Inr Inl
        by (auto simp: execute_job_def Let_def job_failed_def norm_error_of_def normalized_codes_def)
    next
      case (Inr resp)
      then show ?thesis using assms(1,4) \<open>(if \<not> health_check_ok ?b then start_outcome ?b else Inr True) = Inr ok\<close>
        by (simp add: execute_job_def Let_def)
    qed
  qed
qed

text \<open>
  Claim C6 says that the code of an errored job is one of the five normalized codes and
  that the no-provider failure defaults to \<open>other\<close>. When the registry has no provider
  for the job's model, the job ends with the integer 500 as its normalized code: the
  status 500 is handed to \<^verbatim>\<open>GatewayError\<close> in the position of
  \<^verbatim>\<open>normalized_code\<close>.
\<close>

theorem execute_job_no_provider_code:
  "get_provider_for_model Registry_init ''m1'' = None \<and>
   status (execute_job Registry_init backends_two (mk_job ''j1'' ''m1'')) = ''error'' \<and>
   error (execute_job Registry_init backends_two (mk_job ''j1'' ''m1'')) =
     Some ''No provider found for m1'' \<and>
   normalized_error (execute_job Registry_init backends_two (mk_job ''j1'' ''m1'')) =
     Some (PInt 500) \<and>
   norm_error_of (execute_job Registry_init backends_two (mk_job ''j1'' ''m1'')) = PInt 500 \<and>
   PInt 500 \<notin> set normalized_codes"
  by (simp add: execute_job_def get_provider_for_model_def Registry_init_def mk_job_def
      job_failed_def GatewayError_init_def norm_error_of_def normalized_codes_def)

section \<open>Properties of the request controller\<close>











lemma refresh_on_miss_ignores_cooldown:
  "refresh_on_miss (cfg\<lparr>runtime := (runtime cfg)\<lparr>refresh_cooldown_seconds := c\<rparr>\<rparr>) e m reg =
   refresh_on_miss cfg e m reg"
  by (simp add: refresh_on_miss_def)

lemma refresh_on_miss_ignores_cooldown_error:
  "refresh_on_miss_error (cfg\<lparr>runtime := (runtime cfg)\<lparr>refresh_cooldown_seconds := c\<rparr>\<rparr>) e m reg =
   refresh_on_miss_error cfg e m reg"
  by (simp add: refresh_on_miss_error_def)

lemma refresh_on_miss_refreshes:
  assumes "map_of (model_map reg) m = None" "auto_refresh_on_miss (runtime cfg)"
    and "refresh_on_miss_error cfg e m reg = None"
  shows "last_refresh_timestamp (refresh_on_miss cfg e m reg) = loop_time e"
proof -
  let ?ps = "providers (load_providers_from_disk (provider_files e) (reg\<lparr>providers := []\<rparr>))"
  obtain seen raised final where pp: "probe_providers (probes e) ?ps [] = (seen, raised, final)"
    by (cases "probe_providers (probes e) ?ps []") auto
  note r = refresh_eq[OF pp]
  show ?thesis using assms r(3,5) by (simp add: refresh_on_miss_def refresh_on_miss_error_def)
qed

text \<open>
  Claim C7 says that a miss triggers a refresh only when
  \<^verbatim>\<open>refresh_cooldown_seconds\<close> have passed since the previous refresh. With the
  default cooldown of 30 seconds, a registry refreshed at time 100 and a request for the
  unknown model \<open>mX\<close> at time 101, the controller refreshes the registry again.
\<close>

theorem refresh_on_miss_within_cooldown:
  "refresh_cooldown_seconds (runtime AppConfig_default) = 30 \<and>
   auto_refresh_on_miss (runtime AppConfig_default) \<and>
   last_refresh_timestamp registry_two = 100 \<and>
   loop_time (env_sample 0) = 101 \<and>
   map_of (model_map registry_two) ''mX'' = None \<and>
   chat_completions AppConfig_default routes_sample env_sample (request_for ''mX'') registry_two =
     Some (HTTPException 500 [not_found_attempt ''mX''],
           snd (refresh 101 disk_two world_two registry_two), []) \<and>
   last_refresh_timestamp (snd (refresh 101 disk_two world_two registry_two)) = 101"
  by code_simp

section \<open>Properties of the health endpoint\<close>

text \<open>
  Claim C10. Whatever the state of the scheduler and of the registry, the handler of
  \<^verbatim>\<open>GET /health\<close> raises \<^verbatim>\<open>AttributeError\<close> on
  \<^verbatim>\<open>active_model_id\<close>: the scheduler that the application imports defines
  neither \<^verbatim>\<open>active_model_id\<close> nor \<^verbatim>\<open>active_provider_id\<close>. With the
  legacy scheduler, which defines both, the handler returns its payload.
\<close>

theorem health_attribute_error:
  "app_health s task reg =
     Inl (PyError ''AttributeError''
            ([CHR 0x27] @ ''Scheduler'' @ [CHR 0x27] @ '' object has no attribute '' @
             [CHR 0x27] @ ''active_model_id'' @ [CHR 0x27])) \<and>
   getattr (scheduler_object s task) ''active_model_id'' =
     Inl (PyError ''AttributeError''
            ([CHR 0x27] @ ''Scheduler'' @ [CHR 0x27] @ '' object has no attribute '' @
             [CHR 0x27] @ ''active_model_id'' @ [CHR 0x27])) \<and>
   getattr (scheduler_object s task) ''active_provider_id'' =
     Inl (PyError ''AttributeError''
            ([CHR 0x27] @ ''Scheduler'' @ [CHR 0x27] @ '' object has no attribute '' @
             [CHR 0x27] @ ''active_provider_id'' @ [CHR 0x27])) \<and>
   health (legacy_scheduler_object l task') reg =
     Inr \<lparr>health_status = ''ok'', active_model = optional_str (active_model_id l),
          active_provider = optional_str (active_provider_id l),
          registry_models = map fst (model_map reg)\<rparr>"
  by (simp add: app_health_def health_def getattr_def scheduler_object_def
      legacy_scheduler_object_def)

end
